theory Spec2Isabelle
  imports Main "HOL-Library.Word"
begin

unbundle bit_operations_syntax

section \<open>Shared data\<close>

text \<open>
  A data member \<^verbatim>\<open>name_\<close> of the source is the field \<open>name\<close> here (an identifier cannot
  end with an underscore); the three members of \<^verbatim>\<open>UdtSocket\<close> carry the prefix
  \<open>socket\<close>.
\<close>

type_synonym byte = "8 word"
type_synonym uint32 = "32 word"

text \<open>A UDP endpoint is an address and a port.\<close>

type_synonym endpoint = "nat \<times> nat"

text \<open>
  Sockets are passed around by pointer (\<^verbatim>\<open>UdtSocket*\<close>, \<^verbatim>\<open>UdtSocket&\<close>); a
  \<open>socket_ref\<close> is the address of a socket object, and a pointer that may be null is a
  \<open>socket_ref option\<close> with \<open>None\<close> for the null pointer.
\<close>

type_synonym socket_ref = nat

text \<open>
  \<^verbatim>\<open>boost::posix_time::ptime\<close>: a number of clock ticks, or the special value
  \<^verbatim>\<open>pos_infin\<close>, the only special value the code writes (a response deadline is read
  only after \<^verbatim>\<open>StartReadSize\<close> has set it). A duration (\<^verbatim>\<open>Timeout\<close>) is a number of
  ticks; the tick is a microsecond.
\<close>

datatype ptime = PTime int | PosInfin

type_synonym Timeout = int

fun ptime_less_eq :: "ptime \<Rightarrow> ptime \<Rightarrow> bool" where
  "ptime_less_eq (PTime a) (PTime b) = (a \<le> b)"
| "ptime_less_eq (PTime a) PosInfin = True"
| "ptime_less_eq PosInfin (PTime b) = False"
| "ptime_less_eq PosInfin PosInfin = True"

text \<open>\<^verbatim>\<open>std::min(a, b)\<close> is \<^verbatim>\<open>(b < a) ? b : a\<close>.\<close>

definition ptime_min :: "ptime \<Rightarrow> ptime \<Rightarrow> ptime" where
  "ptime_min a b = (if ptime_less_eq b a \<and> b \<noteq> a then b else a)"

text \<open>
  What stops a call before it returns: a failed \<^verbatim>\<open>assert\<close> (the assertions are compiled
  in, as in the reference build), or the \<^verbatim>\<open>std::out_of_range\<close> thrown by
  \<^verbatim>\<open>std::vector::at\<close>.
\<close>

datatype failure = AssertionFailed | OutOfRange

section \<open>The acceptor (\<^verbatim>\<open>udt_acceptor.cc\<close>)\<close>

record PendingRequest =
  remote_id :: uint32
  remote_endpoint :: endpoint

text \<open>The three fields of a \<^verbatim>\<open>UdtSocket\<close> that the acceptor writes.\<close>

record UdtSocket =
  socket_remote_id :: uint32
  socket_remote_endpoint :: endpoint
  socket_id :: uint32

text \<open>
  The dispatcher of the multiplexer: the table of registered sockets and the single
  acceptor slot. An acceptor is identified by its address (\<^verbatim>\<open>this\<close>).
\<close>

record UdtDispatcher =
  acceptor :: "nat option"
  sockets :: "uint32 \<rightharpoonup> socket_ref"

text \<open>
  Modelled from the spec: \<^verbatim>\<open>UdtDispatcher::SetAcceptor\<close> and
  \<^verbatim>\<open>UdtDispatcher::GetAcceptor\<close> are not part of the sources at hand; the spec calls them
  a single-slot accessor.
\<close>

definition SetAcceptor :: "UdtDispatcher \<Rightarrow> nat option \<Rightarrow> UdtDispatcher" where
  "SetAcceptor d a = d\<lparr>acceptor := a\<rparr>"

definition GetAcceptor :: "UdtDispatcher \<Rightarrow> nat option" where
  "GetAcceptor d = acceptor d"

text \<open>
  Modelled from the spec: \<^verbatim>\<open>UdtDispatcher::AddSocket\<close> is not part of the sources at
  hand; the spec says that registering a socket assigns an id, inserts the binding and
  never fails. How the id is picked is left to the parameter \<open>new_id\<close>, which sees the
  current table.
\<close>

definition AddSocket ::
  "((uint32 \<rightharpoonup> socket_ref) \<Rightarrow> uint32) \<Rightarrow> UdtDispatcher \<Rightarrow> socket_ref \<Rightarrow> uint32 \<times> UdtDispatcher"
where
  "AddSocket new_id d s =
     (let i = new_id (sockets d) in (i, d\<lparr>sockets := (sockets d)(i \<mapsto> s)\<rparr>))"

text \<open>
  What the acceptor does besides updating its fields: cancelling the waits on the timer
  \<^verbatim>\<open>waiting_accept_\<close>, and the \<^verbatim>\<open>DLOG(ERROR)\<close> line for a datagram that is not a handshake.
\<close>

datatype acceptor_effect = WaitingAcceptCancel | LogIgnoringInvalidPacket endpoint

text \<open>
  The acceptor with what it reaches through its references: its own fields, the dispatcher
  of its multiplexer and the socket objects its pointers refer to.
\<close>

record UdtAcceptor =
  this_acceptor :: nat
  dispatcher :: UdtDispatcher
  waiting_accept_expires_at :: ptime
  waiting_accept_socket :: "socket_ref option"
  pending_requests :: "PendingRequest list"
  socket_objects :: "socket_ref \<Rightarrow> UdtSocket"
  acceptor_effects :: "acceptor_effect list"

definition UdtAcceptor_ctor ::
  "nat \<Rightarrow> UdtDispatcher \<Rightarrow> (socket_ref \<Rightarrow> UdtSocket) \<Rightarrow> UdtAcceptor" where
  "UdtAcceptor_ctor this d objs =
     \<lparr>this_acceptor = this,
      dispatcher = SetAcceptor d (Some this),
      waiting_accept_expires_at = PosInfin,
      waiting_accept_socket = None,
      pending_requests = [],
      socket_objects = objs,
      acceptor_effects = []\<rparr>"

definition UdtAcceptor_IsOpen :: "UdtAcceptor \<Rightarrow> bool" where
  "UdtAcceptor_IsOpen a = (GetAcceptor (dispatcher a) = Some (this_acceptor a))"

definition UdtAcceptor_Close :: "UdtAcceptor \<Rightarrow> UdtAcceptor" where
  "UdtAcceptor_Close a =
     (let a1 = a\<lparr>pending_requests := []\<rparr>;
          a2 = a1\<lparr>acceptor_effects := acceptor_effects a1 @ [WaitingAcceptCancel]\<rparr>
      in if UdtAcceptor_IsOpen a2 then a2\<lparr>dispatcher := SetAcceptor (dispatcher a2) None\<rparr> else a2)"

text \<open>
  \<^verbatim>\<open>StartAccept\<close>: the assertion first, then the oldest pending request, if there is one,
  is bound to the socket, the socket is registered and the request removed; with an empty
  backlog the socket becomes the waiting socket.
\<close>

definition StartAccept ::
  "((uint32 \<rightharpoonup> socket_ref) \<Rightarrow> uint32) \<Rightarrow> UdtAcceptor \<Rightarrow> socket_ref \<Rightarrow> failure + UdtAcceptor"
where
  "StartAccept new_id a socket =
     (if waiting_accept_socket a \<noteq> None then Inl AssertionFailed
      else case pending_requests a of
        front # rest \<Rightarrow>
          (let (i, d) = AddSocket new_id (dispatcher a) socket;
               obj = (socket_objects a socket)
                       \<lparr>socket_remote_id := remote_id front,
                        socket_remote_endpoint := remote_endpoint front,
                        socket_id := i\<rparr>
           in Inr (a\<lparr>socket_objects := (socket_objects a)(socket := obj),
                     dispatcher := d,
                     pending_requests := rest,
                     acceptor_effects := acceptor_effects a @ [WaitingAcceptCancel]\<rparr>))
      | [] \<Rightarrow> Inr (a\<lparr>waiting_accept_socket := Some socket\<rparr>))"

text \<open>
  \<^verbatim>\<open>HandleReceiveFrom\<close>. \<^verbatim>\<open>UdtHandshakePacket::Decode\<close> is not part of the sources at hand:
  it is the parameter \<open>Decode\<close>, which gives the socket id the packet carries, or \<open>None\<close>
  when the datagram is not a handshake packet.
\<close>

definition HandleReceiveFrom ::
  "(byte list \<Rightarrow> uint32 option) \<Rightarrow> ((uint32 \<rightharpoonup> socket_ref) \<Rightarrow> uint32) \<Rightarrow>
   UdtAcceptor \<Rightarrow> byte list \<Rightarrow> endpoint \<Rightarrow> UdtAcceptor"
where
  "HandleReceiveFrom Decode new_id a data endpoint =
     (case Decode data of
        Some SocketId \<Rightarrow>
          (case waiting_accept_socket a of
             Some socket \<Rightarrow>
               (let (i, d) = AddSocket new_id (dispatcher a) socket;
                    obj = (socket_objects a socket)
                            \<lparr>socket_remote_id := SocketId,
                             socket_remote_endpoint := endpoint,
                             socket_id := i\<rparr>
                in a\<lparr>socket_objects := (socket_objects a)(socket := obj),
                      dispatcher := d,
                      waiting_accept_socket := None,
                      acceptor_effects := acceptor_effects a @ [WaitingAcceptCancel]\<rparr>)
           | None \<Rightarrow>
               a\<lparr>pending_requests :=
                    pending_requests a @ [\<lparr>remote_id = SocketId, remote_endpoint = endpoint\<rparr>]\<rparr>)
      | None \<Rightarrow>
          a\<lparr>acceptor_effects := acceptor_effects a @ [LogIgnoringInvalidPacket endpoint]\<rparr>)"

text \<open>
  A run of the acceptor: handshake datagrams arriving and \<^verbatim>\<open>StartAccept\<close> calls, in the
  order given. A failed assertion ends the run.
\<close>

datatype acceptor_event = EvReceiveFrom "byte list" endpoint | EvStartAccept socket_ref

fun run_acceptor ::
  "(byte list \<Rightarrow> uint32 option) \<Rightarrow> ((uint32 \<rightharpoonup> socket_ref) \<Rightarrow> uint32) \<Rightarrow>
   UdtAcceptor \<Rightarrow> acceptor_event list \<Rightarrow> failure + UdtAcceptor"
where
  "run_acceptor Decode new_id a [] = Inr a"
| "run_acceptor Decode new_id a (EvReceiveFrom data endpoint # evs) =
     run_acceptor Decode new_id (HandleReceiveFrom Decode new_id a data endpoint) evs"
| "run_acceptor Decode new_id a (EvStartAccept socket # evs) =
     (case StartAccept new_id a socket of
        Inl e \<Rightarrow> Inl e
      | Inr a' \<Rightarrow> run_acceptor Decode new_id a' evs)"

text \<open>The handshake requests that arrive in a run, and the sockets offered to it.\<close>

fun arrivals :: "(byte list \<Rightarrow> uint32 option) \<Rightarrow> acceptor_event list \<Rightarrow> PendingRequest list" where
  "arrivals Decode [] = []"
| "arrivals Decode (EvReceiveFrom data endpoint # evs) =
     (case Decode data of
        Some SocketId \<Rightarrow> \<lparr>remote_id = SocketId, remote_endpoint = endpoint\<rparr> # arrivals Decode evs
      | None \<Rightarrow> arrivals Decode evs)"
| "arrivals Decode (EvStartAccept socket # evs) = arrivals Decode evs"

fun accepts :: "acceptor_event list \<Rightarrow> socket_ref list" where
  "accepts [] = []"
| "accepts (EvReceiveFrom data endpoint # evs) = accepts evs"
| "accepts (EvStartAccept socket # evs) = socket # accepts evs"

text \<open>The number of accept calls that are suspended: the waiting slot holds at most one.\<close>

definition suspended_accepts :: "UdtAcceptor \<Rightarrow> nat" where
  "suspended_accepts a = (case waiting_accept_socket a of None \<Rightarrow> 0 | Some socket \<Rightarrow> 1)"

section \<open>The connection (\<^verbatim>\<open>udt_connection.cc\<close>)\<close>

text \<open>
  The constants of the transport are declared in a header that is not part of the sources at
  hand; they are the fields of a \<open>config\<close>, a parameter of every function that uses
  one. \<open>kMaxTransportMessageSize\<close> and \<open>kMaxTransportChunkSize\<close> are the values of
  \<^verbatim>\<open>static_cast<size_t>(kMaxTransportMessageSize)\<close> and
  \<^verbatim>\<open>static_cast<size_t>(kMaxTransportChunkSize)\<close>; \<open>scaled_by_kTimeoutFactor n\<close> is the value
  of \<^verbatim>\<open>static_cast<boost::int64_t>(n * kTimeoutFactor)\<close>.
\<close>

record config =
  kMaxTransportMessageSize :: nat
  kMaxTransportChunkSize :: nat
  kDefaultInitialTimeout :: Timeout
  kStallTimeout :: Timeout
  kMinTimeout :: Timeout
  kImmediateTimeout :: Timeout
  scaled_by_kTimeoutFactor :: "nat \<Rightarrow> int"

text \<open>The transport conditions the connection reports.\<close>

datatype TransportCondition =
  kReceiveTimeout | kReceiveFailure | kSendTimeout | kSendFailure | kMessageSizeTooLarge

text \<open>A \<^verbatim>\<open>boost::system::error_code\<close> is its value; 0 is success.\<close>

type_synonym error_code = nat

text \<open>The member functions that are bound as completion handlers or posted.\<close>

datatype handler =
  H_DoClose | H_DoStartReceiving | H_DoStartSending | H_CheckTimeout | H_HandleReadSize
| H_HandleReadData | H_DispatchMessage | H_HandleConnect | H_StartWrite | H_HandleWrite

text \<open>
  What a member function does besides updating the fields of the connection, in the
  order it does it: calls on the socket, the timer, the strand and the I/O service, and
  the callbacks of the transport. \<open>AsyncRead off n least h\<close> asks for at least \<open>least\<close>
  bytes into the \<open>n\<close> bytes of the buffer that start at \<open>off\<close>; \<open>AsyncWrite bs h\<close> asks
  for the bytes \<open>bs\<close> to be written.
\<close>

datatype connection_effect =
  SocketClose
| TimerCancel
| TimerAsyncWait handler
| RemoveConnection
| StrandDispatch handler
| IoServicePost handler
| AsyncRead nat nat nat handler
| AsyncConnect handler
| AsyncWrite "byte list" handler
| OnError TransportCondition
| OnMessageReceived "byte list"
| LogDataSizeExceedsLimit uint32

text \<open>
  The transport as the connection sees it. The message-received signal gets the message
  and the two out-parameters (the response and its timeout) as they are before the call,
  and gives them back as they are after it.
\<close>

record UdtTransport =
  on_message_received :: "byte list \<Rightarrow> byte list \<times> Timeout \<Rightarrow> byte list \<times> Timeout"

text \<open>
  Modelled from the spec: the declaration of \<^verbatim>\<open>DataSize\<close> is not part of the sources at
  hand; the spec calls the length prefix a uint32, and the constructor of the connection
  asserts that \<^verbatim>\<open>DataSize\<close> has 4 bytes.
\<close>

type_synonym DataSize = uint32

text \<open>
  The connection. \<open>transport\<close> is what \<^verbatim>\<open>transport_.lock()\<close> gives: \<open>None\<close> once the
  transport is destroyed. \<open>socket_is_open\<close> is \<^verbatim>\<open>socket_.IsOpen()\<close> and
  \<open>timer_expires_at\<close> is \<^verbatim>\<open>timer_.expires_at()\<close>. The buffer is a vector of unsigned
  bytes, as the wire format of the spec has them; \<^verbatim>\<open>data_size_\<close> and \<^verbatim>\<open>data_received_\<close>
  are 64-bit \<^verbatim>\<open>size_t\<close> values. The members that no member function reads (the
  multiplexer, the strand, the remote endpoint) are left out.
\<close>

record UdtConnection =
  transport :: "UdtTransport option"
  socket_is_open :: bool
  timer_expires_at :: ptime
  response_deadline :: ptime
  buffer :: "byte list"
  data_size :: nat
  data_received :: nat
  timeout_for_response :: Timeout
  effects :: "connection_effect list"

definition emit :: "connection_effect \<Rightarrow> UdtConnection \<Rightarrow> UdtConnection" where
  "emit e c = c\<lparr>effects := effects c @ [e]\<rparr>"

text \<open>\<^verbatim>\<open>std::vector::resize\<close>: cut, or fill up with zero bytes.\<close>

definition resize :: "nat \<Rightarrow> byte list \<Rightarrow> byte list" where
  "resize n bs = take n bs @ replicate (n - length bs) 0"

text \<open>Arithmetic of \<^verbatim>\<open>size_t\<close>: sums and differences wrap at \<open>2 ^ 64\<close>.\<close>

definition size_t_add :: "nat \<Rightarrow> nat \<Rightarrow> nat" where
  "size_t_add a b = (a + b) mod 2 ^ 64"

definition size_t_sub :: "nat \<Rightarrow> nat \<Rightarrow> nat" where
  "size_t_sub a b = (a mod 2 ^ 64 + 2 ^ 64 - b mod 2 ^ 64) mod 2 ^ 64"

text \<open>
  \<^verbatim>\<open>time_duration::total_milliseconds\<close> divides the ticks by 1000 and truncates towards
  zero; \<^verbatim>\<open>bptime::milliseconds(n)\<close> is \<open>1000 * n\<close> ticks.
\<close>

definition total_milliseconds :: "Timeout \<Rightarrow> int" where
  "total_milliseconds d = sgn d * (\<bar>d\<bar> div 1000)"

definition milliseconds :: "int \<Rightarrow> Timeout" where
  "milliseconds n = 1000 * n"

definition DoClose :: "UdtConnection \<Rightarrow> UdtConnection" where
  "DoClose c =
     (let c1 = emit SocketClose (c\<lparr>socket_is_open := False\<rparr>);
          c2 = emit TimerCancel c1
      in if transport c2 \<noteq> None then emit RemoveConnection c2 else c2)"

definition UdtConnection_Close :: "UdtConnection \<Rightarrow> UdtConnection" where
  "UdtConnection_Close c = emit (StrandDispatch H_DoClose) c"

definition CloseOnError :: "TransportCondition \<Rightarrow> UdtConnection \<Rightarrow> UdtConnection" where
  "CloseOnError error c =
     DoClose (if transport c \<noteq> None then emit (OnError error) c else c)"

definition CheckTimeout :: "int \<Rightarrow> UdtConnection \<Rightarrow> UdtConnection" where
  "CheckTimeout now c =
     (if \<not> socket_is_open c then c
      else if ptime_less_eq (timer_expires_at c) (PTime now)
        then emit SocketClose (c\<lparr>socket_is_open := False\<rparr>)
        else emit (TimerAsyncWait H_CheckTimeout) c)"

text \<open>
  \<^verbatim>\<open>EncodeData\<close>: the size of the message as a \<^verbatim>\<open>DataSize\<close>; a size over the limit is
  logged and reported to the transport, and the buffer stays as it is; otherwise the buffer
  becomes the four bytes of the size, highest first, and the message.
\<close>

definition EncodeData :: "config \<Rightarrow> UdtConnection \<Rightarrow> byte list \<Rightarrow> UdtConnection" where
  "EncodeData cfg c data =
     (let msg_size = (of_nat (length data) :: DataSize)
      in if unat msg_size > kMaxTransportMessageSize cfg
         then (let c1 = emit (LogDataSizeExceedsLimit msg_size) c
               in if transport c1 \<noteq> None then emit (OnError kMessageSizeTooLarge) c1 else c1)
         else (let c1 = c\<lparr>buffer := []\<rparr>;
                   c2 = foldl (\<lambda>c' i. c'\<lparr>buffer := buffer c' @
                                 [ucast (drop_bit (8 * (3 - i)) msg_size) :: byte]\<rparr>)
                              c1 [0..<4]
               in c2\<lparr>buffer := buffer c2 @ data\<rparr>))"

text \<open>
  The read of the size and of the data. Setting the expiry of the timer also cancels the
  waits on it, which runs \<^verbatim>\<open>CheckTimeout\<close> again; that call is an event of its own.
\<close>

definition StartReadData :: "config \<Rightarrow> int \<Rightarrow> UdtConnection \<Rightarrow> failure + UdtConnection" where
  "StartReadData cfg now c =
     (if \<not> socket_is_open c then Inl AssertionFailed
      else
        (let buffer_size = size_t_add (data_received c)
               (min (kMaxTransportChunkSize cfg) (size_t_sub (data_size c) (data_received c)));
             c1 = c\<lparr>buffer := resize buffer_size (buffer c)\<rparr>;
             c2 = emit (AsyncRead (data_received c1) (length (buffer c1) - data_received c1) 1
                          H_HandleReadData) c1
         in Inr (c2\<lparr>timer_expires_at :=
                      ptime_min (response_deadline c2) (PTime (now + kStallTimeout cfg))\<rparr>)))"

definition StartReadSize :: "config \<Rightarrow> int \<Rightarrow> UdtConnection \<Rightarrow> failure + UdtConnection" where
  "StartReadSize cfg now c =
     (if \<not> socket_is_open c then Inl AssertionFailed
      else
        (let c1 = c\<lparr>buffer := resize 4 (buffer c)\<rparr>;
             c2 = emit (AsyncRead 0 (length (buffer c1)) 4 H_HandleReadSize) c1;
             c3 = c2\<lparr>response_deadline := PTime (now + timeout_for_response c2)\<rparr>
         in Inr (c3\<lparr>timer_expires_at :=
                      ptime_min (response_deadline c3) (PTime (now + kStallTimeout cfg))\<rparr>)))"

text \<open>The size that \<^verbatim>\<open>HandleReadSize\<close> reads from the first four bytes of the buffer.\<close>

definition read_size :: "byte list \<Rightarrow> DataSize" where
  "read_size bs =
     push_bit 8 (push_bit 8 (push_bit 8 (ucast (bs ! 0)) OR ucast (bs ! 1)) OR ucast (bs ! 2))
       OR ucast (bs ! 3)"

definition HandleReadSize ::
  "config \<Rightarrow> int \<Rightarrow> UdtConnection \<Rightarrow> error_code \<Rightarrow> failure + UdtConnection" where
  "HandleReadSize cfg now c ec =
     (if \<not> socket_is_open c then Inr (CloseOnError kReceiveTimeout c)
      else if ec \<noteq> 0 then Inr (CloseOnError kReceiveFailure c)
      else if length (buffer c) < 4 then Inl OutOfRange
      else
        (let size = read_size (buffer c);
             c1 = c\<lparr>data_size := unat size\<rparr>;
             c2 = c1\<lparr>data_received := 0\<rparr>
         in StartReadData cfg now c2))"

definition HandleReadData ::
  "config \<Rightarrow> int \<Rightarrow> UdtConnection \<Rightarrow> error_code \<Rightarrow> nat \<Rightarrow> failure + UdtConnection" where
  "HandleReadData cfg now c ec len =
     (if \<not> socket_is_open c then Inr (CloseOnError kReceiveTimeout c)
      else if ec \<noteq> 0 then Inr (CloseOnError kReceiveFailure c)
      else
        (let c1 = c\<lparr>data_received := size_t_add (data_received c) len\<rparr>
         in if data_received c1 = data_size c1
            then Inr (emit (IoServicePost H_DispatchMessage) (c1\<lparr>timer_expires_at := PosInfin\<rparr>))
            else StartReadData cfg now c1))"

definition StartWrite :: "config \<Rightarrow> int \<Rightarrow> UdtConnection \<Rightarrow> failure + UdtConnection" where
  "StartWrite cfg now c =
     (if \<not> socket_is_open c then Inl AssertionFailed
      else
        (let tm_out = milliseconds (max (scaled_by_kTimeoutFactor cfg (length (buffer c)))
                                        (total_milliseconds (kMinTimeout cfg)));
             c1 = emit (AsyncWrite (buffer c) H_HandleWrite) c
         in Inr (c1\<lparr>timer_expires_at := PTime (now + tm_out)\<rparr>)))"

definition DispatchMessage :: "config \<Rightarrow> UdtConnection \<Rightarrow> UdtConnection" where
  "DispatchMessage cfg c =
     (case transport c of
        None \<Rightarrow> c
      | Some tr \<Rightarrow>
          (let (response, response_timeout) =
                 on_message_received tr (buffer c) ([], kImmediateTimeout cfg);
               c1 = emit (OnMessageReceived (buffer c)) c
           in if response = [] then UdtConnection_Close c1
              else
                (let c2 = EncodeData cfg c1 response;
                     c3 = c2\<lparr>timeout_for_response := response_timeout\<rparr>
                 in emit (StrandDispatch H_StartWrite) c3)))"

definition StartConnect :: "config \<Rightarrow> int \<Rightarrow> UdtConnection \<Rightarrow> UdtConnection" where
  "StartConnect cfg now c =
     (let c1 = emit (AsyncConnect H_HandleConnect) c
      in c1\<lparr>timer_expires_at := PTime (now + kDefaultInitialTimeout cfg)\<rparr>)"

definition HandleConnect ::
  "config \<Rightarrow> int \<Rightarrow> UdtConnection \<Rightarrow> error_code \<Rightarrow> failure + UdtConnection" where
  "HandleConnect cfg now c ec =
     (if \<not> socket_is_open c then Inr (CloseOnError kSendTimeout c)
      else if ec \<noteq> 0 then Inr (CloseOnError kSendFailure c)
      else StartWrite cfg now c)"

definition HandleWrite ::
  "config \<Rightarrow> int \<Rightarrow> UdtConnection \<Rightarrow> error_code \<Rightarrow> failure + UdtConnection" where
  "HandleWrite cfg now c ec =
     (if \<not> socket_is_open c then Inr (CloseOnError kSendTimeout c)
      else if ec \<noteq> 0 then Inr (CloseOnError kSendFailure c)
      else if timeout_for_response c \<noteq> kImmediateTimeout cfg then StartReadSize cfg now c
      else Inr (DoClose c))"

definition StartReceiving :: "UdtConnection \<Rightarrow> UdtConnection" where
  "StartReceiving c = emit (StrandDispatch H_DoStartReceiving) c"

text \<open>
  \<^verbatim>\<open>DoStartReceiving\<close> and \<^verbatim>\<open>DoStartSending\<close> read the clock twice: \<open>now\<close> in the first
  call and \<open>now'\<close> in \<^verbatim>\<open>CheckTimeout\<close>.
\<close>

definition DoStartReceiving ::
  "config \<Rightarrow> int \<Rightarrow> int \<Rightarrow> UdtConnection \<Rightarrow> failure + UdtConnection" where
  "DoStartReceiving cfg now now' c =
     (case StartReadSize cfg now c of
        Inl e \<Rightarrow> Inl e
      | Inr c1 \<Rightarrow> Inr (CheckTimeout now' c1))"

definition StartSending :: "config \<Rightarrow> UdtConnection \<Rightarrow> byte list \<Rightarrow> Timeout \<Rightarrow> UdtConnection" where
  "StartSending cfg c data timeout =
     (let c1 = EncodeData cfg c data;
          c2 = c1\<lparr>timeout_for_response := timeout\<rparr>
      in emit (StrandDispatch H_DoStartSending) c2)"

definition DoStartSending :: "config \<Rightarrow> int \<Rightarrow> int \<Rightarrow> UdtConnection \<Rightarrow> UdtConnection" where
  "DoStartSending cfg now now' c = CheckTimeout now' (StartConnect cfg now c)"

text \<open>
  Running a handler that was dispatched, posted or bound to a completion: the call the
  strand or the I/O service makes when its turn comes, with the error code and the number
  of bytes of the completion and the readings of the clock.
\<close>

fun run_handler ::
  "config \<Rightarrow> int \<Rightarrow> int \<Rightarrow> error_code \<Rightarrow> nat \<Rightarrow> handler \<Rightarrow> UdtConnection \<Rightarrow>
   failure + UdtConnection"
where
  "run_handler cfg now now' ec len H_DoClose c = Inr (DoClose c)"
| "run_handler cfg now now' ec len H_DoStartReceiving c = DoStartReceiving cfg now now' c"
| "run_handler cfg now now' ec len H_DoStartSending c = Inr (DoStartSending cfg now now' c)"
| "run_handler cfg now now' ec len H_CheckTimeout c = Inr (CheckTimeout now c)"
| "run_handler cfg now now' ec len H_HandleReadSize c = HandleReadSize cfg now c ec"
| "run_handler cfg now now' ec len H_HandleReadData c = HandleReadData cfg now c ec len"
| "run_handler cfg now now' ec len H_DispatchMessage c = Inr (DispatchMessage cfg c)"
| "run_handler cfg now now' ec len H_HandleConnect c = HandleConnect cfg now c ec"
| "run_handler cfg now now' ec len H_StartWrite c = StartWrite cfg now c"
| "run_handler cfg now now' ec len H_HandleWrite c = HandleWrite cfg now c ec"

text \<open>The four bytes of a size, highest first, as the wire format has them.\<close>

definition big_endian_uint32 :: "nat \<Rightarrow> byte list" where
  "big_endian_uint32 n =
     [of_nat (n div 16777216 mod 256), of_nat (n div 65536 mod 256),
      of_nat (n div 256 mod 256), of_nat (n mod 256)]"

text \<open>The waiting socket as a list: empty, or the one socket.\<close>

definition waiting_sockets :: "UdtAcceptor \<Rightarrow> socket_ref list" where
  "waiting_sockets a = (case waiting_accept_socket a of None \<Rightarrow> [] | Some socket \<Rightarrow> [socket])"

section \<open>Example values\<close>

text \<open>
  Concrete values for the examples below: a decoder that takes a datagram of four bytes as
  a handshake packet with that socket id, an id generator that picks the first of 1, 2, 3
  that is free, and a newly constructed acceptor on an empty dispatcher.
\<close>

definition example_Decode :: "byte list \<Rightarrow> uint32 option" where
  "example_Decode data = (if length data = 4 then Some (read_size data) else None)"

definition example_new_id :: "(uint32 \<rightharpoonup> socket_ref) \<Rightarrow> uint32" where
  "example_new_id table = (if table 1 = None then 1 else if table 2 = None then 2 else 3)"

definition example_acceptor :: UdtAcceptor where
  "example_acceptor =
     UdtAcceptor_ctor 1 \<lparr>acceptor = None, sockets = Map.empty\<rparr>
       (\<lambda>socket. \<lparr>socket_remote_id = 0, socket_remote_endpoint = (0, 0), socket_id = 0\<rparr>)"

text \<open>
  Sample values for the constants: a limit of 64 MiB on a message, chunks of 64 KiB,
  timeouts of 10 s, 3 s and 0.5 s, the zero duration as the immediate timeout and a
  millisecond of write timeout per byte. The transport of the example connection answers a
  message with the message itself and leaves the response timeout as it finds it.
\<close>

definition example_config :: config where
  "example_config =
     \<lparr>kMaxTransportMessageSize = 67108864, kMaxTransportChunkSize = 65536,
      kDefaultInitialTimeout = 10000000, kStallTimeout = 3000000, kMinTimeout = 500000,
      kImmediateTimeout = 0, scaled_by_kTimeoutFactor = (\<lambda>n. int n)\<rparr>"

definition example_connection :: UdtConnection where
  "example_connection =
     \<lparr>transport = Some \<lparr>on_message_received = (\<lambda>message (response, timeout). (message, timeout))\<rparr>,
      socket_is_open = True, timer_expires_at = PosInfin, response_deadline = PosInfin,
      buffer = [1, 2, 3], data_size = 3, data_received = 0, timeout_for_response = 10000000,
      effects = []\<rparr>"

section \<open>The acceptor: the backlog and the waiting socket\<close>

lemma StartAccept_waiting:
  "waiting_accept_socket a \<noteq> None \<Longrightarrow> StartAccept new_id a socket = Inl AssertionFailed"
  by (simp add: StartAccept_def)

lemma StartAccept_empty:
  "waiting_accept_socket a = None \<Longrightarrow> pending_requests a = [] \<Longrightarrow>
   StartAccept new_id a socket = Inr (a\<lparr>waiting_accept_socket := Some socket\<rparr>)"
  by (simp add: StartAccept_def)

lemma StartAccept_front:
  "waiting_accept_socket a = None \<Longrightarrow> pending_requests a = front # rest \<Longrightarrow>
   StartAccept new_id a socket =
     Inr (a\<lparr>socket_objects := (socket_objects a)
                (socket := (socket_objects a socket)
                   \<lparr>socket_remote_id := remote_id front,
                    socket_remote_endpoint := remote_endpoint front,
                    socket_id := new_id (sockets (dispatcher a))\<rparr>),
             dispatcher := (dispatcher a)
                \<lparr>sockets := (sockets (dispatcher a))(new_id (sockets (dispatcher a)) \<mapsto> socket)\<rparr>,
             pending_requests := rest,
             acceptor_effects := acceptor_effects a @ [WaitingAcceptCancel]\<rparr>)"
  by (simp add: StartAccept_def AddSocket_def Let_def)

lemma HandleReceiveFrom_invalid:
  "Decode data = None \<Longrightarrow>
   HandleReceiveFrom Decode new_id a data endpoint =
     a\<lparr>acceptor_effects := acceptor_effects a @ [LogIgnoringInvalidPacket endpoint]\<rparr>"
  by (simp add: HandleReceiveFrom_def)

lemma HandleReceiveFrom_queue:
  "Decode data = Some i \<Longrightarrow> waiting_accept_socket a = None \<Longrightarrow>
   HandleReceiveFrom Decode new_id a data endpoint =
     a\<lparr>pending_requests := pending_requests a @ [\<lparr>remote_id = i, remote_endpoint = endpoint\<rparr>]\<rparr>"
  by (simp add: HandleReceiveFrom_def)

lemma HandleReceiveFrom_waiting:
  "Decode data = Some i \<Longrightarrow> waiting_accept_socket a = Some socket \<Longrightarrow>
   HandleReceiveFrom Decode new_id a data endpoint =
     a\<lparr>socket_objects := (socket_objects a)
                (socket := (socket_objects a socket)
                   \<lparr>socket_remote_id := i,
                    socket_remote_endpoint := endpoint,
                    socket_id := new_id (sockets (dispatcher a))\<rparr>),
        dispatcher := (dispatcher a)
                \<lparr>sockets := (sockets (dispatcher a))(new_id (sockets (dispatcher a)) \<mapsto> socket)\<rparr>,
        waiting_accept_socket := None,
        acceptor_effects := acceptor_effects a @ [WaitingAcceptCancel]\<rparr>"
  by (simp add: HandleReceiveFrom_def AddSocket_def Let_def)

lemma run_acceptor_backlog:
  assumes "run_acceptor Decode new_id a evs = Inr a'"
    and "pending_requests a = [] \<or> waiting_accept_socket a = None"
  shows "pending_requests a' =
           drop (length (waiting_sockets a @ accepts evs)) (pending_requests a @ arrivals Decode evs)
       \<and> waiting_sockets a' =
           drop (length (pending_requests a @ arrivals Decode evs)) (waiting_sockets a @ accepts evs)
       \<and> length (waiting_sockets a @ accepts evs)
           \<le> Suc (length (pending_requests a @ arrivals Decode evs))"
  using assms
proof (induction evs arbitrary: a)
  case Nil
  then show ?case by (auto simp: waiting_sockets_def split: option.splits)
next
  case (Cons e evs)
  note prems1 = Cons.prems(1)
  show ?case
  proof (cases e)
    case (EvReceiveFrom data endpoint)
    show ?thesis
    proof (cases "Decode data")
      case None
      let ?a1 = "a\<lparr>acceptor_effects := acceptor_effects a @ [LogIgnoringInvalidPacket endpoint]\<rparr>"
      have run: "run_acceptor Decode new_id ?a1 evs = Inr a'"
        using Cons.prems(1) EvReceiveFrom None by (simp add: HandleReceiveFrom_invalid)
      have inv: "pending_requests ?a1 = [] \<or> waiting_accept_socket ?a1 = None"
        using Cons.prems(2) by simp
      from Cons.IH [OF run inv] show ?thesis
        using EvReceiveFrom None by (simp add: waiting_sockets_def)
    next
      case (Some i)
      show ?thesis
      proof (cases "waiting_accept_socket a")
        case None
        let ?a1 = "a\<lparr>pending_requests := pending_requests a @ [\<lparr>remote_id = i, remote_endpoint = endpoint\<rparr>]\<rparr>"
        have run: "run_acceptor Decode new_id ?a1 evs = Inr a'"
          using Cons.prems(1) EvReceiveFrom Some None by (simp add: HandleReceiveFrom_queue)
        have inv: "pending_requests ?a1 = [] \<or> waiting_accept_socket ?a1 = None"
          using None by simp
        from Cons.IH [OF run inv] show ?thesis
          using EvReceiveFrom Some None by (simp add: waiting_sockets_def)
      next
        case (Some socket)
        note w = this
        have p: "pending_requests a = []" using Cons.prems(2) w by simp
        let ?a1 = "HandleReceiveFrom Decode new_id a data endpoint"
        have run: "run_acceptor Decode new_id ?a1 evs = Inr a'"
          using Cons.prems(1) EvReceiveFrom by simp
        have a1: "pending_requests ?a1 = []" "waiting_accept_socket ?a1 = None"
          using \<open>Decode data = Some i\<close> w p by (simp_all add: HandleReceiveFrom_waiting)
        from Cons.IH [OF run] a1 show ?thesis
          using EvReceiveFrom \<open>Decode data = Some i\<close> w p by (simp add: waiting_sockets_def)
      qed
    qed
  next
    case (EvStartAccept socket)
    have w: "waiting_accept_socket a = None"
      using Cons.prems(1) EvStartAccept by (cases "waiting_accept_socket a") (simp_all add: StartAccept_def)
    show ?thesis
    proof (cases "pending_requests a")
      case Nil
      let ?a1 = "a\<lparr>waiting_accept_socket := Some socket\<rparr>"
      have run: "run_acceptor Decode new_id ?a1 evs = Inr a'"
        using Cons.prems(1) EvStartAccept w Nil by (simp add: StartAccept_empty)
      have inv: "pending_requests ?a1 = [] \<or> waiting_accept_socket ?a1 = None"
        using Nil by simp
      from Cons.IH [OF run inv] show ?thesis
        using EvStartAccept w Nil by (simp add: waiting_sockets_def)
    next
      case (Cons front rest)
      from StartAccept_front [OF w Cons, of new_id socket]
      obtain a1 where s: "StartAccept new_id a socket = Inr a1"
        and a1p: "pending_requests a1 = rest" and a1w: "waiting_accept_socket a1 = None"
        by (simp add: w)
      note a1 = a1p a1w
      have run: "run_acceptor Decode new_id a1 evs = Inr a'"
        using prems1 EvStartAccept s by simp
      from Cons.IH [OF run] a1 show ?thesis
        using EvStartAccept w Cons by (simp add: waiting_sockets_def)
    qed
  qed
qed


lemma HandleReceiveFrom_frame:
  "s \<notin> set (waiting_sockets a) \<Longrightarrow>
   socket_objects (HandleReceiveFrom Decode new_id a data endpoint) s = socket_objects a s"
  by (auto simp: HandleReceiveFrom_def waiting_sockets_def AddSocket_def Let_def
           split: option.splits)

lemma HandleReceiveFrom_waiting_sockets:
  "set (waiting_sockets (HandleReceiveFrom Decode new_id a data endpoint))
     \<subseteq> set (waiting_sockets a)"
  by (auto simp: HandleReceiveFrom_def waiting_sockets_def AddSocket_def Let_def
           split: option.splits)

lemma StartAccept_frame:
  "StartAccept new_id a socket = Inr a1 \<Longrightarrow> s \<noteq> socket \<Longrightarrow>
   socket_objects a1 s = socket_objects a s"
  by (auto simp: StartAccept_def AddSocket_def Let_def split: if_splits list.splits)

lemma StartAccept_waiting_sockets:
  "StartAccept new_id a socket = Inr a1 \<Longrightarrow> set (waiting_sockets a1) \<subseteq> {socket}"
  by (auto simp: StartAccept_def AddSocket_def Let_def waiting_sockets_def
           split: if_splits list.splits)

lemma run_acceptor_frame:
  assumes "run_acceptor Decode new_id a evs = Inr a'"
    and "s \<notin> set (waiting_sockets a)" and "s \<notin> set (accepts evs)"
  shows "socket_objects a' s = socket_objects a s"
  using assms
proof (induction evs arbitrary: a)
  case Nil
  then show ?case by simp
next
  case (Cons e evs)
  show ?case
  proof (cases e)
    case (EvReceiveFrom data endpoint)
    let ?a1 = "HandleReceiveFrom Decode new_id a data endpoint"
    have "run_acceptor Decode new_id ?a1 evs = Inr a'"
      using Cons.prems(1) EvReceiveFrom by simp
    moreover have "s \<notin> set (waiting_sockets ?a1)"
      using Cons.prems(2) HandleReceiveFrom_waiting_sockets by blast
    moreover have "s \<notin> set (accepts evs)"
      using Cons.prems(3) EvReceiveFrom by simp
    ultimately have "socket_objects a' s = socket_objects ?a1 s"
      by (rule Cons.IH)
    then show ?thesis
      using Cons.prems(2) by (simp add: HandleReceiveFrom_frame)
  next
    case (EvStartAccept socket)
    then obtain a1 where s1: "StartAccept new_id a socket = Inr a1"
      and run: "run_acceptor Decode new_id a1 evs = Inr a'"
      using Cons.prems(1) by (cases "StartAccept new_id a socket") simp_all
    have ne: "s \<noteq> socket" and rest: "s \<notin> set (accepts evs)"
      using Cons.prems(3) EvStartAccept by simp_all
    have "s \<notin> set (waiting_sockets a1)"
      using StartAccept_waiting_sockets [OF s1] ne by blast
    with run rest have "socket_objects a' s = socket_objects a1 s"
      by (simp add: Cons.IH)
    then show ?thesis
      using StartAccept_frame [OF s1 ne] by simp
  qed
qed

lemma run_acceptor_bindings:
  assumes "run_acceptor Decode new_id a evs = Inr a'"
    and "pending_requests a = [] \<or> waiting_accept_socket a = None"
    and "distinct (waiting_sockets a @ accepts evs)"
    and "i < length (pending_requests a @ arrivals Decode evs)"
    and "i < length (waiting_sockets a @ accepts evs)"
  shows "socket_remote_id (socket_objects a' ((waiting_sockets a @ accepts evs) ! i))
           = remote_id ((pending_requests a @ arrivals Decode evs) ! i)
       \<and> socket_remote_endpoint (socket_objects a' ((waiting_sockets a @ accepts evs) ! i))
           = remote_endpoint ((pending_requests a @ arrivals Decode evs) ! i)"
  using assms
proof (induction evs arbitrary: a i)
  case Nil
  then show ?case by (auto simp: waiting_sockets_def split: option.splits)
next
  case (Cons e evs)
  note IH = Cons.IH and prems = Cons.prems
  show ?case
  proof (cases e)
    case (EvReceiveFrom data endpoint)
    let ?a1 = "HandleReceiveFrom Decode new_id a data endpoint"
    have run: "run_acceptor Decode new_id ?a1 evs = Inr a'"
      using prems(1) EvReceiveFrom by simp
    show ?thesis
    proof (cases "Decode data")
      case None
      have a1: "?a1 = a\<lparr>acceptor_effects := acceptor_effects a @ [LogIgnoringInvalidPacket endpoint]\<rparr>"
        using None by (rule HandleReceiveFrom_invalid)
      show ?thesis
        using IH [OF run, of i] prems(2-5) EvReceiveFrom None
        by (simp add: a1 waiting_sockets_def)
    next
      case (Some k)
      show ?thesis
      proof (cases "waiting_accept_socket a")
        case None
        have a1: "?a1 = a\<lparr>pending_requests := pending_requests a @ [\<lparr>remote_id = k, remote_endpoint = endpoint\<rparr>]\<rparr>"
          using Some None by (rule HandleReceiveFrom_queue)
        show ?thesis
          using IH [OF run, of i] prems(2-5) EvReceiveFrom Some None
          by (simp add: a1 waiting_sockets_def)
      next
        case (Some socket)
        note w = this
        have p: "pending_requests a = []" using prems(2) w by simp
        have a1: "pending_requests ?a1 = []" "waiting_accept_socket ?a1 = None"
          "socket_remote_id (socket_objects ?a1 socket) = k"
          "socket_remote_endpoint (socket_objects ?a1 socket) = endpoint"
          using \<open>Decode data = Some k\<close> w p by (simp_all add: HandleReceiveFrom_waiting)
        have d: "socket \<notin> set (accepts evs)" "distinct (accepts evs)"
          using prems(3) w EvReceiveFrom by (simp_all add: waiting_sockets_def)
        show ?thesis
        proof (cases i)
          case 0
          have "socket_objects a' socket = socket_objects ?a1 socket"
            using run a1(2) d(1) by (intro run_acceptor_frame) (simp_all add: waiting_sockets_def)
          then show ?thesis
            using 0 a1 w p EvReceiveFrom \<open>Decode data = Some k\<close>
            by (simp add: waiting_sockets_def)
        next
          case (Suc j)
          show ?thesis
            using IH [OF run, of j] prems(4,5) a1 d w p Suc EvReceiveFrom
              \<open>Decode data = Some k\<close>
            by (simp add: waiting_sockets_def)
        qed
      qed
    qed
  next
    case (EvStartAccept socket)
    have w: "waiting_accept_socket a = None"
      using prems(1) EvStartAccept
      by (cases "waiting_accept_socket a") (simp_all add: StartAccept_def)
    show ?thesis
    proof (cases "pending_requests a")
      case Nil
      let ?a1 = "a\<lparr>waiting_accept_socket := Some socket\<rparr>"
      have run: "run_acceptor Decode new_id ?a1 evs = Inr a'"
        using prems(1) EvStartAccept w Nil by (simp add: StartAccept_empty)
      show ?thesis
        using IH [OF run, of i] prems(3-5) EvStartAccept w Nil
        by (simp add: waiting_sockets_def)
    next
      case (Cons front rest)
      from StartAccept_front [OF w Cons, of new_id socket]
      obtain a1 where s1: "StartAccept new_id a socket = Inr a1"
        and a1: "pending_requests a1 = rest" "waiting_accept_socket a1 = None"
          "socket_remote_id (socket_objects a1 socket) = remote_id front"
          "socket_remote_endpoint (socket_objects a1 socket) = remote_endpoint front"
        by (simp add: w)
      have run: "run_acceptor Decode new_id a1 evs = Inr a'"
        using prems(1) EvStartAccept s1 by simp
      have d: "socket \<notin> set (accepts evs)" "distinct (accepts evs)"
        using prems(3) w EvStartAccept
        by (simp_all add: waiting_sockets_def)
      show ?thesis
      proof (cases i)
        case 0
        have "socket_objects a' socket = socket_objects a1 socket"
          using run a1(2) d(1) by (intro run_acceptor_frame) (simp_all add: waiting_sockets_def)
        then show ?thesis
          using 0 a1 w Cons EvStartAccept by (simp add: waiting_sockets_def)
      next
        case (Suc j)
        show ?thesis
          using IH [OF run, of j] prems(4,5)
            a1 d w Suc Cons EvStartAccept
          by (simp add: waiting_sockets_def)
      qed
    qed
  qed
qed

lemma suspended_accepts_waiting_sockets: "suspended_accepts a = length (waiting_sockets a)"
  by (simp add: suspended_accepts_def waiting_sockets_def split: option.splits)

text \<open>
  Claim C1, as the code has it. Take a run of handshake arrivals and \<^verbatim>\<open>StartAccept\<close> calls,
  in any order, on an acceptor with an empty backlog and no waiting socket, in which no
  call fails the assertion, with \<open>N\<close> arrivals that decode and \<open>M\<close> calls. Then the backlog
  at the end is the arrivals without the first \<open>M\<close>, in arrival order, so \<open>N - M\<close> requests
  remain queued; \<open>M\<close> is at most \<open>N + 1\<close>, the number of suspended accept calls is \<open>M - N\<close>
  (0 or 1), and when \<open>M > N\<close> the suspended one is the last call. When the sockets of the
  calls are different objects, the socket of the \<open>i\<close>-th call carries the remote id and the
  remote endpoint of the \<open>i\<close>-th arrival. A single \<^verbatim>\<open>StartAccept\<close> on a non-empty backlog
  with no waiting socket binds the socket to the oldest request, registers it with the
  dispatcher and removes that request.
\<close>

theorem accept_backlog_fifo:
  assumes "run_acceptor Decode new_id a evs = Inr a'"
    and "pending_requests a = []" and "waiting_accept_socket a = None"
  shows "pending_requests a' = drop (length (accepts evs)) (arrivals Decode evs)
       \<and> length (pending_requests a') = length (arrivals Decode evs) - length (accepts evs)
       \<and> length (accepts evs) \<le> Suc (length (arrivals Decode evs))
       \<and> suspended_accepts a' = length (accepts evs) - length (arrivals Decode evs)
       \<and> (length (arrivals Decode evs) < length (accepts evs) \<longrightarrow>
            waiting_accept_socket a' = Some (last (accepts evs)))
       \<and> (distinct (accepts evs) \<longrightarrow>
            (\<forall>i. i < length (arrivals Decode evs) \<and> i < length (accepts evs) \<longrightarrow>
               socket_remote_id (socket_objects a' (accepts evs ! i))
                 = remote_id (arrivals Decode evs ! i)
             \<and> socket_remote_endpoint (socket_objects a' (accepts evs ! i))
                 = remote_endpoint (arrivals Decode evs ! i)))
       \<and> (\<forall>b front rest socket.
            waiting_accept_socket b = None \<and> pending_requests b = front # rest \<longrightarrow>
            StartAccept new_id b socket =
              Inr (b\<lparr>socket_objects := (socket_objects b)
                        (socket := (socket_objects b socket)
                           \<lparr>socket_remote_id := remote_id front,
                            socket_remote_endpoint := remote_endpoint front,
                            socket_id := new_id (sockets (dispatcher b))\<rparr>),
                      dispatcher := (dispatcher b)
                        \<lparr>sockets := (sockets (dispatcher b))
                           (new_id (sockets (dispatcher b)) \<mapsto> socket)\<rparr>,
                      pending_requests := rest,
                      acceptor_effects := acceptor_effects b @ [WaitingAcceptCancel]\<rparr>))"
proof -
  have inv: "pending_requests a = [] \<or> waiting_accept_socket a = None"
    using assms(2) by simp
  have ws: "waiting_sockets a = []"
    using assms(3) by (simp add: waiting_sockets_def)
  note backlog = run_acceptor_backlog [OF assms(1) inv, unfolded ws assms(2), simplified]
  have 1: "pending_requests a' = drop (length (accepts evs)) (arrivals Decode evs)"
    using backlog by simp
  have 2: "length (accepts evs) \<le> Suc (length (arrivals Decode evs))"
    using backlog by simp
  have 3: "waiting_sockets a' = drop (length (arrivals Decode evs)) (accepts evs)"
    using backlog by simp
  have 4: "suspended_accepts a' = length (accepts evs) - length (arrivals Decode evs)"
    using 3 by (simp add: suspended_accepts_waiting_sockets)
  have 5: "waiting_accept_socket a' = Some (last (accepts evs))"
    if "length (arrivals Decode evs) < length (accepts evs)"
  proof -
    have "length (accepts evs) = Suc (length (arrivals Decode evs))"
      using that 2 by simp
    then have "drop (length (arrivals Decode evs)) (accepts evs) = [last (accepts evs)]"
      by (metis append_butlast_last_id append_eq_conv_conj diff_Suc_1 length_0_conv
            length_butlast nat.distinct(1))
    with 3 show ?thesis
      by (simp add: waiting_sockets_def split: option.splits)
  qed
  have 6: "socket_remote_id (socket_objects a' (accepts evs ! i))
             = remote_id (arrivals Decode evs ! i)
         \<and> socket_remote_endpoint (socket_objects a' (accepts evs ! i))
             = remote_endpoint (arrivals Decode evs ! i)"
    if "distinct (accepts evs)" "i < length (arrivals Decode evs)" "i < length (accepts evs)" for i
    using run_acceptor_bindings [OF assms(1) inv, of i] that by (simp add: ws assms(2))
  show ?thesis
    using 1 2 4 5 6 by (simp add: StartAccept_front)
qed

text \<open>
  Two runs of the example acceptor: two arrivals and then one call (one request stays
  queued), and a call, an arrival and a second call (the second call stays suspended);
  and a single call on a backlog of two requests.
\<close>

theorem accept_backlog_fifo_witness:
  "(\<exists>a'. run_acceptor example_Decode example_new_id example_acceptor
            [EvReceiveFrom [0, 0, 0, 5] (10, 1), EvReceiveFrom [0, 0, 0, 6] (11, 1),
             EvStartAccept 1] = Inr a'
        \<and> pending_requests a' = [\<lparr>remote_id = 6, remote_endpoint = (11, 1)\<rparr>]
        \<and> suspended_accepts a' = 0
        \<and> socket_remote_id (socket_objects a' 1) = 5
        \<and> socket_remote_endpoint (socket_objects a' 1) = (10, 1))
 \<and> (\<exists>a'. run_acceptor example_Decode example_new_id example_acceptor
            [EvStartAccept 1, EvReceiveFrom [0, 0, 0, 5] (10, 1), EvStartAccept 2] = Inr a'
        \<and> pending_requests a' = []
        \<and> suspended_accepts a' = 1
        \<and> waiting_accept_socket a' = Some 2
        \<and> socket_remote_id (socket_objects a' 1) = 5)
 \<and> (\<exists>a'. StartAccept example_new_id
            (example_acceptor\<lparr>pending_requests :=
               [\<lparr>remote_id = 5, remote_endpoint = (10, 1)\<rparr>,
                \<lparr>remote_id = 6, remote_endpoint = (11, 1)\<rparr>]\<rparr>) 4 = Inr a'
        \<and> pending_requests a' = [\<lparr>remote_id = 6, remote_endpoint = (11, 1)\<rparr>]
        \<and> socket_objects a' 4
             = \<lparr>socket_remote_id = 5, socket_remote_endpoint = (10, 1), socket_id = 1\<rparr>
        \<and> sockets (dispatcher a') 1 = Some 4)"
proof -
  let ?evs1 = "[EvReceiveFrom [0, 0, 0, 5] (10, 1), EvReceiveFrom [0, 0, 0, 6] (11, 1),
                EvStartAccept 1]"
  let ?evs2 = "[EvStartAccept 1, EvReceiveFrom [0, 0, 0, 5] (10, 1), EvStartAccept 2]"
  have init: "pending_requests example_acceptor = []"
    "waiting_accept_socket example_acceptor = None"
    by (simp_all add: example_acceptor_def UdtAcceptor_ctor_def)
  have d: "example_Decode [0, 0, 0, 5] = Some 5" "example_Decode [0, 0, 0, 6] = Some 6"
    by (simp_all add: example_Decode_def read_size_def)
  obtain a1 where r1: "run_acceptor example_Decode example_new_id example_acceptor ?evs1 = Inr a1"
    by (simp add: HandleReceiveFrom_def StartAccept_def AddSocket_def Let_def d init)
  obtain a2 where r2: "run_acceptor example_Decode example_new_id example_acceptor ?evs2 = Inr a2"
    by (simp add: HandleReceiveFrom_def StartAccept_def AddSocket_def Let_def d init)
  have "pending_requests a1 = [\<lparr>remote_id = 6, remote_endpoint = (11, 1)\<rparr>]
        \<and> suspended_accepts a1 = 0
        \<and> socket_remote_id (socket_objects a1 1) = 5
        \<and> socket_remote_endpoint (socket_objects a1 1) = (10, 1)"
    using accept_backlog_fifo [OF r1 init] by (simp add: d)
  moreover have "pending_requests a2 = []
        \<and> suspended_accepts a2 = 1
        \<and> waiting_accept_socket a2 = Some 2
        \<and> socket_remote_id (socket_objects a2 1) = 5"
    using accept_backlog_fifo [OF r2 init] by (simp add: d)
  moreover have "\<exists>a'. StartAccept example_new_id
            (example_acceptor\<lparr>pending_requests :=
               [\<lparr>remote_id = 5, remote_endpoint = (10, 1)\<rparr>,
                \<lparr>remote_id = 6, remote_endpoint = (11, 1)\<rparr>]\<rparr>) 4 = Inr a'
        \<and> pending_requests a' = [\<lparr>remote_id = 6, remote_endpoint = (11, 1)\<rparr>]
        \<and> socket_objects a' 4
             = \<lparr>socket_remote_id = 5, socket_remote_endpoint = (10, 1), socket_id = 1\<rparr>
        \<and> sockets (dispatcher a') 1 = Some 4"
    using accept_backlog_fifo [OF r1 init]
    by (simp add: example_acceptor_def UdtAcceptor_ctor_def SetAcceptor_def example_new_id_def)
  ultimately show ?thesis
    using r1 r2 by simp
qed

text \<open>
  Claim C1 as stated asks for \<open>M - N\<close> suspended accept calls for every run. With no
  arrival and two calls that would be two; the second call fails the assertion instead.
\<close>

theorem accept_backlog_two_suspended_counterexample:
  "run_acceptor example_Decode example_new_id example_acceptor
     [EvStartAccept 1, EvStartAccept 2] = Inl AssertionFailed"
  by (simp add: StartAccept_def example_acceptor_def UdtAcceptor_ctor_def)

text \<open>
  Claim C4: a \<^verbatim>\<open>StartAccept\<close> while a socket is waiting fails the assertion, whatever the
  backlog holds; no state comes back in which the second socket is queued, and a run stops
  at that call.
\<close>

theorem StartAccept_while_waiting_asserts:
  assumes "waiting_accept_socket a = Some waiting"
  shows "StartAccept new_id a socket = Inl AssertionFailed
       \<and> run_acceptor Decode new_id a (EvStartAccept socket # evs) = Inl AssertionFailed"
  using assms by (simp add: StartAccept_def)

theorem StartAccept_while_waiting_asserts_witness:
  "waiting_accept_socket (example_acceptor\<lparr>waiting_accept_socket := Some 1\<rparr>) = Some 1
 \<and> pending_requests (example_acceptor\<lparr>waiting_accept_socket := Some 1\<rparr>) = []
 \<and> StartAccept example_new_id (example_acceptor\<lparr>waiting_accept_socket := Some 1\<rparr>) 2
      = Inl AssertionFailed"
  using StartAccept_while_waiting_asserts
          [of "example_acceptor\<lparr>waiting_accept_socket := Some 1\<rparr>" 1 example_new_id 2]
  by (simp add: example_acceptor_def UdtAcceptor_ctor_def)

text \<open>
  Claim C9: a datagram that does not decode as a handshake packet only adds the log line.
  The backlog, the waiting socket, the dispatcher (and so the registration of the acceptor)
  stay as they are, no failure comes back, and the next datagram is handled as if the
  invalid one had not arrived.
\<close>

theorem HandleReceiveFrom_invalid_discarded:
  assumes "Decode data = None"
  shows "HandleReceiveFrom Decode new_id a data endpoint
           = a\<lparr>acceptor_effects := acceptor_effects a @ [LogIgnoringInvalidPacket endpoint]\<rparr>
       \<and> pending_requests (HandleReceiveFrom Decode new_id a data endpoint) = pending_requests a
       \<and> waiting_accept_socket (HandleReceiveFrom Decode new_id a data endpoint)
           = waiting_accept_socket a
       \<and> dispatcher (HandleReceiveFrom Decode new_id a data endpoint) = dispatcher a
       \<and> UdtAcceptor_IsOpen (HandleReceiveFrom Decode new_id a data endpoint)
           = UdtAcceptor_IsOpen a
       \<and> pending_requests (HandleReceiveFrom Decode new_id
            (HandleReceiveFrom Decode new_id a data endpoint) data' endpoint')
           = pending_requests (HandleReceiveFrom Decode new_id a data' endpoint')
       \<and> waiting_accept_socket (HandleReceiveFrom Decode new_id
            (HandleReceiveFrom Decode new_id a data endpoint) data' endpoint')
           = waiting_accept_socket (HandleReceiveFrom Decode new_id a data' endpoint')
       \<and> dispatcher (HandleReceiveFrom Decode new_id
            (HandleReceiveFrom Decode new_id a data endpoint) data' endpoint')
           = dispatcher (HandleReceiveFrom Decode new_id a data' endpoint')
       \<and> socket_objects (HandleReceiveFrom Decode new_id
            (HandleReceiveFrom Decode new_id a data endpoint) data' endpoint')
           = socket_objects (HandleReceiveFrom Decode new_id a data' endpoint')"
proof -
  have 1: "HandleReceiveFrom Decode new_id a data endpoint
           = a\<lparr>acceptor_effects := acceptor_effects a @ [LogIgnoringInvalidPacket endpoint]\<rparr>"
    using assms by (rule HandleReceiveFrom_invalid)
  show ?thesis
    unfolding 1
    by (simp add: UdtAcceptor_IsOpen_def)
       (simp add: HandleReceiveFrom_def AddSocket_def Let_def split: option.splits)
qed

theorem HandleReceiveFrom_invalid_discarded_witness:
  "example_Decode [1, 2] = None
 \<and> HandleReceiveFrom example_Decode example_new_id example_acceptor [1, 2] (10, 1)
      = example_acceptor\<lparr>acceptor_effects := [LogIgnoringInvalidPacket (10, 1)]\<rparr>
 \<and> pending_requests (HandleReceiveFrom example_Decode example_new_id
      (HandleReceiveFrom example_Decode example_new_id example_acceptor [1, 2] (10, 1))
      [0, 0, 0, 5] (11, 1)) = [\<lparr>remote_id = 5, remote_endpoint = (11, 1)\<rparr>]"
proof -
  have d: "example_Decode [1, 2] = None"
    by (simp add: example_Decode_def)
  have e: "acceptor_effects example_acceptor = []"
    by (simp add: example_acceptor_def UdtAcceptor_ctor_def)
  have p: "pending_requests (HandleReceiveFrom example_Decode example_new_id example_acceptor
          [0, 0, 0, 5] (11, 1)) = [\<lparr>remote_id = 5, remote_endpoint = (11, 1)\<rparr>]"
    by (simp add: HandleReceiveFrom_def example_Decode_def read_size_def example_acceptor_def
          UdtAcceptor_ctor_def)
  note t = HandleReceiveFrom_invalid_discarded
             [of example_Decode "[1, 2]" example_new_id example_acceptor "(10, 1)"
                 "[0, 0, 0, 5]" "(11, 1)", OF d]
  have t1: "HandleReceiveFrom example_Decode example_new_id example_acceptor [1, 2] (10, 1)
      = example_acceptor\<lparr>acceptor_effects :=
          acceptor_effects example_acceptor @ [LogIgnoringInvalidPacket (10, 1)]\<rparr>"
    using t by (rule conjunct1)
  have t6: "pending_requests (HandleReceiveFrom example_Decode example_new_id
      (HandleReceiveFrom example_Decode example_new_id example_acceptor [1, 2] (10, 1))
      [0, 0, 0, 5] (11, 1))
      = pending_requests (HandleReceiveFrom example_Decode example_new_id example_acceptor
          [0, 0, 0, 5] (11, 1))"
    using t by blast
  have g2: "HandleReceiveFrom example_Decode example_new_id example_acceptor [1, 2] (10, 1)
      = example_acceptor\<lparr>acceptor_effects := [LogIgnoringInvalidPacket (10, 1)]\<rparr>"
    using t1 by (simp only: e append_Nil)
  show ?thesis
    by (intro conjI d g2 trans [OF t6 p])
qed

section \<open>The connection: framing\<close>

lemma upt_4: "[0..<4] = [0, 1, 2, 3]"
  by (simp add: upt_rec)

lemma byte_of_size:
  "(ucast (drop_bit k (of_nat n :: 32 word)) :: 8 word) = of_nat (n div 2 ^ k mod 256)"
  if "k + 8 \<le> 32"
proof (rule bit_word_eqI)
  fix i assume "i < LENGTH(8)"
  have "n div 2 ^ k mod 256 = take_bit 8 (drop_bit k n)"
    by (simp add: take_bit_eq_mod drop_bit_eq_div)
  then show "bit (ucast (drop_bit k (of_nat n :: 32 word)) :: 8 word) i
           = bit (of_nat (n div 2 ^ k mod 256) :: 8 word) i"
    using that \<open>i < LENGTH(8)\<close> by (auto simp add: bit_simps)
qed

lemma size_bytes_big_endian:
  "map (\<lambda>i. ucast (drop_bit (8 * (3 - i)) (of_nat n :: 32 word)) :: byte) [0..<4]
     = big_endian_uint32 n"
  using byte_of_size [of 24 n] byte_of_size [of 16 n] byte_of_size [of 8 n] byte_of_size [of 0 n]
  by (simp add: upt_4 big_endian_uint32_def)

lemma EncodeData_accepts:
  assumes "unat (of_nat (length data) :: 32 word) \<le> kMaxTransportMessageSize cfg"
  shows "EncodeData cfg c data = c\<lparr>buffer := big_endian_uint32 (length data) @ data\<rparr>"
proof -
  have "foldl (\<lambda>c' i. c'\<lparr>buffer := buffer c' @
            [ucast (drop_bit (8 * (3 - i)) (of_nat (length data) :: 32 word)) :: byte]\<rparr>)
          (c\<lparr>buffer := []\<rparr>) [0..<4]
        = c\<lparr>buffer := map (\<lambda>i. ucast (drop_bit (8 * (3 - i)) (of_nat (length data) :: 32 word)))
                          [0..<4]\<rparr>"
    by (simp add: upt_4)
  then show ?thesis
    using assms by (simp add: EncodeData_def Let_def size_bytes_big_endian)
qed

lemma EncodeData_rejects:
  assumes "kMaxTransportMessageSize cfg < unat (of_nat (length data) :: 32 word)"
  shows "EncodeData cfg c data =
           c\<lparr>effects := effects c @ [LogDataSizeExceedsLimit (of_nat (length data))]
                 @ (if transport c = None then [] else [OnError kMessageSizeTooLarge])\<rparr>"
  using assms by (simp add: EncodeData_def Let_def emit_def)

lemma unat_size: "n < 2 ^ 32 \<Longrightarrow> unat (of_nat n :: 32 word) = n"
  by (simp add: unat_of_nat take_bit_nat_eq_self)

lemma byte_as_bits:
  "(of_nat (n div 2 ^ k mod 256) :: 8 word) = of_nat (take_bit 8 (drop_bit k n))"
  by (simp add: take_bit_eq_mod drop_bit_eq_div)

lemma read_size_Cons:
  "read_size (b0 # b1 # b2 # b3 # rest) =
     push_bit 8 (push_bit 8 (push_bit 8 (ucast b0) OR ucast b1) OR ucast b2) OR ucast b3"
  by (simp add: read_size_def)

lemma read_size_big_endian:
  "read_size (big_endian_uint32 n @ rest) = (of_nat n :: 32 word)" (is "?w = ?v")
proof (rule bit_word_eqI)
  fix i assume "i < LENGTH(32)"
  then consider "i < 8" | "8 \<le> i" "i < 16" | "16 \<le> i" "i < 24" | "24 \<le> i" "i < 32"
    by fastforce
  then show "bit ?w i = bit ?v i"
    using byte_as_bits [of n 24] byte_as_bits [of n 16] byte_as_bits [of n 8]
      byte_as_bits [of n 0]
    by cases (auto simp add: big_endian_uint32_def read_size_Cons bit_simps)
qed

lemma length_big_endian_uint32: "length (big_endian_uint32 n) = 4"
  by (simp add: big_endian_uint32_def)

section \<open>The connection: what each step leaves behind\<close>

lemma CloseOnError_eq:
  "CloseOnError error c =
     c\<lparr>socket_is_open := False,
       effects := effects c @ (if transport c = None then [] else [OnError error])
                  @ [SocketClose, TimerCancel]
                  @ (if transport c = None then [] else [RemoveConnection])\<rparr>"
  by (simp add: CloseOnError_def DoClose_def emit_def Let_def)

lemma DoClose_eq:
  "DoClose c =
     c\<lparr>socket_is_open := False,
       effects := effects c @ [SocketClose, TimerCancel]
                  @ (if transport c = None then [] else [RemoveConnection])\<rparr>"
  by (simp add: DoClose_def emit_def Let_def)

lemma StartReadSize_eq:
  "socket_is_open c \<Longrightarrow>
   StartReadSize cfg now c =
     Inr (c\<lparr>buffer := resize 4 (buffer c),
            effects := effects c @ [AsyncRead 0 4 4 H_HandleReadSize],
            response_deadline := PTime (now + timeout_for_response c),
            timer_expires_at := ptime_min (PTime (now + timeout_for_response c))
                                          (PTime (now + kStallTimeout cfg))\<rparr>)"
  by (simp add: StartReadSize_def emit_def Let_def resize_def)

lemma StartReadData_eq:
  "socket_is_open c \<Longrightarrow>
   StartReadData cfg now c =
     Inr (c\<lparr>buffer := resize (size_t_add (data_received c)
                 (min (kMaxTransportChunkSize cfg) (size_t_sub (data_size c) (data_received c))))
                 (buffer c),
            effects := effects c @
              [AsyncRead (data_received c)
                 (size_t_add (data_received c)
                    (min (kMaxTransportChunkSize cfg) (size_t_sub (data_size c) (data_received c)))
                  - data_received c) 1 H_HandleReadData],
            timer_expires_at := ptime_min (response_deadline c)
                                          (PTime (now + kStallTimeout cfg))\<rparr>)"
  by (simp add: StartReadData_def emit_def Let_def resize_def)

lemma StartWrite_eq:
  "socket_is_open c \<Longrightarrow>
   StartWrite cfg now c =
     Inr (c\<lparr>effects := effects c @ [AsyncWrite (buffer c) H_HandleWrite],
            timer_expires_at := PTime (now + milliseconds
              (max (scaled_by_kTimeoutFactor cfg (length (buffer c)))
                   (total_milliseconds (kMinTimeout cfg))))\<rparr>)"
  by (simp add: StartWrite_def emit_def Let_def)

text \<open>The connect and the write set the timer without reading the response deadline.\<close>

lemma StartConnect_ignores_response_deadline:
  "timer_expires_at (StartConnect cfg now (c\<lparr>response_deadline := d\<rparr>))
     = timer_expires_at (StartConnect cfg now c)"
  by (simp add: StartConnect_def emit_def)

lemma StartWrite_ignores_response_deadline:
  "map_sum id timer_expires_at (StartWrite cfg now (c\<lparr>response_deadline := d\<rparr>))
     = map_sum id timer_expires_at (StartWrite cfg now c)"
  by (simp add: StartWrite_def emit_def)

section \<open>The connection: sending, receiving and timing out\<close>

lemma StartSending_oversized:
  assumes "kMaxTransportMessageSize cfg < unat (of_nat (length data) :: 32 word)"
  shows "StartSending cfg c data timeout =
           c\<lparr>timeout_for_response := timeout,
             effects := effects c @ [LogDataSizeExceedsLimit (of_nat (length data))]
               @ (if transport c = None then [] else [OnError kMessageSizeTooLarge])
               @ [StrandDispatch H_DoStartSending]\<rparr>"
  using assms by (simp add: StartSending_def EncodeData_rejects emit_def)

lemma DoStartSending_connects:
  "DoStartSending cfg now now' c =
     CheckTimeout now' (c\<lparr>effects := effects c @ [AsyncConnect H_HandleConnect],
                           timer_expires_at := PTime (now + kDefaultInitialTimeout cfg)\<rparr>)"
  by (simp add: DoStartSending_def StartConnect_def emit_def)

text \<open>
  Claim C2 at a payload of one byte more than the limit, on a connection with a live
  transport and an empty buffer. \<^verbatim>\<open>EncodeData\<close> logs and reports
  \<^verbatim>\<open>kMessageSizeTooLarge\<close> and returns, but \<^verbatim>\<open>StartSending\<close> goes on: it stores the timeout
  and dispatches \<^verbatim>\<open>DoStartSending\<close>, which starts the connect; when the connect completes,
  \<^verbatim>\<open>StartWrite\<close> writes the buffer as it was before the call. The send is not aborted.
\<close>

theorem StartSending_oversized_still_connects:
  "StartSending example_config (example_connection\<lparr>buffer := []\<rparr>) (replicate 67108865 7) 5000000
     = example_connection
         \<lparr>buffer := [], timeout_for_response := 5000000,
          effects := [LogDataSizeExceedsLimit 67108865, OnError kMessageSizeTooLarge,
                      StrandDispatch H_DoStartSending]\<rparr>
 \<and> run_handler example_config 0 0 0 0 H_DoStartSending
      (StartSending example_config (example_connection\<lparr>buffer := []\<rparr>)
         (replicate 67108865 7) 5000000)
     = Inr (example_connection
         \<lparr>buffer := [], timeout_for_response := 5000000,
          timer_expires_at := PTime 10000000,
          effects := [LogDataSizeExceedsLimit 67108865, OnError kMessageSizeTooLarge,
                      StrandDispatch H_DoStartSending, AsyncConnect H_HandleConnect,
                      TimerAsyncWait H_CheckTimeout]\<rparr>)
 \<and> run_handler example_config 1000 1000 0 0 H_HandleConnect
      (example_connection
         \<lparr>buffer := [], timeout_for_response := 5000000,
          timer_expires_at := PTime 10000000,
          effects := [LogDataSizeExceedsLimit 67108865, OnError kMessageSizeTooLarge,
                      StrandDispatch H_DoStartSending, AsyncConnect H_HandleConnect,
                      TimerAsyncWait H_CheckTimeout]\<rparr>)
     = Inr (example_connection
         \<lparr>buffer := [], timeout_for_response := 5000000,
          timer_expires_at := PTime 501000,
          effects := [LogDataSizeExceedsLimit 67108865, OnError kMessageSizeTooLarge,
                      StrandDispatch H_DoStartSending, AsyncConnect H_HandleConnect,
                      TimerAsyncWait H_CheckTimeout, AsyncWrite [] H_HandleWrite]\<rparr>)"
proof -
  have big: "kMaxTransportMessageSize example_config
               < unat (of_nat (length (replicate 67108865 (7 :: byte))) :: 32 word)"
    by (simp add: example_config_def)
  have 1: "StartSending example_config (example_connection\<lparr>buffer := []\<rparr>)
             (replicate 67108865 7) 5000000
     = example_connection
         \<lparr>buffer := [], timeout_for_response := 5000000,
          effects := [LogDataSizeExceedsLimit 67108865, OnError kMessageSizeTooLarge,
                      StrandDispatch H_DoStartSending]\<rparr>"
    by (simp add: StartSending_oversized [OF big]) (simp add: example_connection_def)
  show ?thesis
    unfolding 1
    by (simp add: DoStartSending_connects CheckTimeout_def HandleConnect_def StartWrite_eq
          emit_def example_connection_def example_config_def milliseconds_def
          total_milliseconds_def)
qed

text \<open>
  Claim C3, for a limit below \<open>2 ^ 31\<close> (the limit is a positive \<^verbatim>\<open>DataSize\<close>). For a payload
  of a size \<open>S\<close> up to the limit, \<^verbatim>\<open>EncodeData\<close> makes the buffer the four bytes of \<open>S\<close>,
  highest first, followed by the payload; the size read from that buffer is \<open>S\<close>, and
  \<^verbatim>\<open>HandleReadSize\<close> on an open connection whose buffer holds the first four bytes sets
  \<^verbatim>\<open>data_size_\<close> to \<open>S\<close>. A payload of one byte more than the limit is rejected: the buffer
  stays as it is, the size is logged and, when the transport is alive, the error reported.
\<close>

theorem EncodeData_round_trip:
  assumes "kMaxTransportMessageSize cfg < 2 ^ 31"
  shows "(length data \<le> kMaxTransportMessageSize cfg \<longrightarrow>
            EncodeData cfg c data = c\<lparr>buffer := big_endian_uint32 (length data) @ data\<rparr>
          \<and> unat (read_size (buffer (EncodeData cfg c data))) = length data
          \<and> (socket_is_open r \<longrightarrow>
               (\<exists>r'. HandleReadSize cfg now
                        (r\<lparr>buffer := take 4 (buffer (EncodeData cfg c data))\<rparr>) 0 = Inr r'
                   \<and> data_size r' = length data \<and> data_received r' = 0)))
       \<and> (length data = kMaxTransportMessageSize cfg + 1 \<longrightarrow>
            EncodeData cfg c data =
              c\<lparr>effects := effects c @ [LogDataSizeExceedsLimit (of_nat (length data))]
                    @ (if transport c = None then [] else [OnError kMessageSizeTooLarge])\<rparr>
          \<and> buffer (EncodeData cfg c data) = buffer c)"
proof (intro conjI impI)
  assume le: "length data \<le> kMaxTransportMessageSize cfg"
  then have small: "length data < 2 ^ 32"
    using assms by simp
  then have u: "unat (of_nat (length data) :: 32 word) = length data"
    by (rule unat_size)
  show enc: "EncodeData cfg c data = c\<lparr>buffer := big_endian_uint32 (length data) @ data\<rparr>"
    using le u by (simp add: EncodeData_accepts)
  show "unat (read_size (buffer (EncodeData cfg c data))) = length data"
    using u by (simp add: enc read_size_big_endian)
  assume "socket_is_open r"
  then show "\<exists>r'. HandleReadSize cfg now
                     (r\<lparr>buffer := take 4 (buffer (EncodeData cfg c data))\<rparr>) 0 = Inr r'
                \<and> data_size r' = length data \<and> data_received r' = 0"
    using u read_size_big_endian [of "length data" "[]"]
    by (simp add: enc HandleReadSize_def length_big_endian_uint32 StartReadData_eq Let_def)
next
  assume eq: "length data = kMaxTransportMessageSize cfg + 1"
  then have "length data < 2 ^ 32"
    using assms by simp
  then have "unat (of_nat (length data) :: 32 word) = length data"
    by (rule unat_size)
  then have "kMaxTransportMessageSize cfg < unat (of_nat (length data) :: 32 word)"
    using eq by simp
  then show rej: "EncodeData cfg c data =
              c\<lparr>effects := effects c @ [LogDataSizeExceedsLimit (of_nat (length data))]
                    @ (if transport c = None then [] else [OnError kMessageSizeTooLarge])\<rparr>"
    by (rule EncodeData_rejects)
  show "buffer (EncodeData cfg c data) = buffer c"
    by (simp add: rej)
qed

text \<open>The sizes 0, 1, the limit less one, the limit, and one more than the limit.\<close>

theorem EncodeData_round_trip_witness:
  "kMaxTransportMessageSize example_config < 2 ^ 31
 \<and> buffer (EncodeData example_config example_connection []) = [0, 0, 0, 0]
 \<and> buffer (EncodeData example_config example_connection [7]) = [0, 0, 0, 1, 7]
 \<and> buffer (EncodeData example_config example_connection (replicate 67108863 7))
      = [3, 255, 255, 255] @ replicate 67108863 7
 \<and> buffer (EncodeData example_config example_connection (replicate 67108864 7))
      = [4, 0, 0, 0] @ replicate 67108864 7
 \<and> unat (read_size (buffer (EncodeData example_config example_connection
      (replicate 67108864 7)))) = 67108864
 \<and> EncodeData example_config example_connection (replicate 67108865 7)
      = example_connection\<lparr>effects :=
          [LogDataSizeExceedsLimit 67108865, OnError kMessageSizeTooLarge]\<rparr>
 \<and> socket_is_open example_connection
 \<and> (\<exists>r'. HandleReadSize example_config 0
          (example_connection\<lparr>buffer :=
             take 4 (buffer (EncodeData example_config example_connection [7]))\<rparr>) 0 = Inr r'
        \<and> data_size r' = 1 \<and> data_received r' = 0)"
proof -
  have m: "kMaxTransportMessageSize example_config < 2 ^ 31"
    by (simp add: example_config_def)
  have k: "kMaxTransportMessageSize example_config = 67108864"
    by (simp add: example_config_def)
  have c: "effects example_connection = []" "transport example_connection \<noteq> None"
    by (simp_all add: example_connection_def)
  have e0: "buffer (EncodeData example_config example_connection []) = [0, 0, 0, 0]"
    using EncodeData_round_trip [OF m, of "[]" example_connection example_connection 0]
    by (simp add: k big_endian_uint32_def)
  have e1: "buffer (EncodeData example_config example_connection [7]) = [0, 0, 0, 1, 7]"
    using EncodeData_round_trip [OF m, of "[7]" example_connection example_connection 0]
    by (simp add: k big_endian_uint32_def)
  have e2: "buffer (EncodeData example_config example_connection (replicate 67108863 7))
      = [3, 255, 255, 255] @ replicate 67108863 7"
    using EncodeData_round_trip
            [OF m, of "replicate 67108863 7" example_connection example_connection 0]
    by (simp add: k big_endian_uint32_def)
  have e3: "buffer (EncodeData example_config example_connection (replicate 67108864 7))
      = [4, 0, 0, 0] @ replicate 67108864 7
    \<and> unat (read_size (buffer (EncodeData example_config example_connection
      (replicate 67108864 7)))) = 67108864"
    using EncodeData_round_trip
            [OF m, of "replicate 67108864 7" example_connection example_connection 0]
    by (simp add: k big_endian_uint32_def read_size_Cons)
  have e4: "EncodeData example_config example_connection (replicate 67108865 7)
      = example_connection\<lparr>effects :=
          [LogDataSizeExceedsLimit 67108865, OnError kMessageSizeTooLarge]\<rparr>"
    using EncodeData_round_trip
            [OF m, of "replicate 67108865 7" example_connection example_connection 0]
    by (simp add: k c)
  have o: "socket_is_open example_connection"
    by (simp add: example_connection_def)
  have e5: "\<exists>r'. HandleReadSize example_config 0
          (example_connection\<lparr>buffer :=
             take 4 (buffer (EncodeData example_config example_connection [7]))\<rparr>) 0 = Inr r'
        \<and> data_size r' = 1 \<and> data_received r' = 0"
  proof -
    have le: "length [7 :: byte] \<le> kMaxTransportMessageSize example_config"
      by (simp add: k)
    from EncodeData_round_trip [OF m, of "[7]" example_connection example_connection 0] le o
    have "\<exists>r'. HandleReadSize example_config 0
          (example_connection\<lparr>buffer :=
             take 4 (buffer (EncodeData example_config example_connection [7]))\<rparr>) 0 = Inr r'
        \<and> data_size r' = length [7 :: byte] \<and> data_received r' = 0"
      by blast
    then show ?thesis
      by simp
  qed
  show ?thesis
    using m e0 e1 e2 e3 e4 o e5 by blast
qed

text \<open>
  Claim C5, as the code has it. The transport is alive and the handler is called with the
  buffer. When it leaves the response empty, the connection dispatches \<^verbatim>\<open>DoClose\<close> and
  nothing else, and running it closes the socket; no write is started. When the response
  is not empty and its size is within the limit (a limit below \<open>2 ^ 31\<close>), the buffer
  becomes the framed response, the response timeout is stored, and \<^verbatim>\<open>StartWrite\<close> is
  dispatched; running it on an open socket starts the write of the framed response.
\<close>

theorem DispatchMessage_response:
  assumes "transport c = Some tr"
    and "on_message_received tr (buffer c) ([], kImmediateTimeout cfg) = (response, response_timeout)"
  shows "(response = [] \<longrightarrow>
            DispatchMessage cfg c =
              c\<lparr>effects := effects c @ [OnMessageReceived (buffer c), StrandDispatch H_DoClose]\<rparr>
          \<and> run_handler cfg now now' ec len H_DoClose (DispatchMessage cfg c) =
              Inr (c\<lparr>socket_is_open := False,
                     effects := effects c @ [OnMessageReceived (buffer c), StrandDispatch H_DoClose,
                                             SocketClose, TimerCancel, RemoveConnection]\<rparr>))
       \<and> (response \<noteq> [] \<and> length response \<le> kMaxTransportMessageSize cfg
            \<and> kMaxTransportMessageSize cfg < 2 ^ 31 \<longrightarrow>
            DispatchMessage cfg c =
              c\<lparr>buffer := big_endian_uint32 (length response) @ response,
                timeout_for_response := response_timeout,
                effects := effects c @ [OnMessageReceived (buffer c), StrandDispatch H_StartWrite]\<rparr>
          \<and> (socket_is_open c \<longrightarrow>
                run_handler cfg now now' ec len H_StartWrite (DispatchMessage cfg c) =
                  Inr (c\<lparr>buffer := big_endian_uint32 (length response) @ response,
                         timeout_for_response := response_timeout,
                         effects := effects c @
                           [OnMessageReceived (buffer c), StrandDispatch H_StartWrite,
                            AsyncWrite (big_endian_uint32 (length response) @ response)
                              H_HandleWrite],
                         timer_expires_at := PTime (now + milliseconds
                           (max (scaled_by_kTimeoutFactor cfg (4 + length response))
                                (total_milliseconds (kMinTimeout cfg))))\<rparr>)))"
proof (intro conjI impI)
  assume "response = []"
  then show 1: "DispatchMessage cfg c =
      c\<lparr>effects := effects c @ [OnMessageReceived (buffer c), StrandDispatch H_DoClose]\<rparr>"
    using assms by (simp add: DispatchMessage_def UdtConnection_Close_def emit_def)
  show "run_handler cfg now now' ec len H_DoClose (DispatchMessage cfg c) =
      Inr (c\<lparr>socket_is_open := False,
             effects := effects c @ [OnMessageReceived (buffer c), StrandDispatch H_DoClose,
                                     SocketClose, TimerCancel, RemoveConnection]\<rparr>)"
    using assms(1) by (simp add: 1 DoClose_eq)
next
  assume a: "response \<noteq> [] \<and> length response \<le> kMaxTransportMessageSize cfg
               \<and> kMaxTransportMessageSize cfg < 2 ^ 31"
  then have "length response < 2 ^ 32"
    by simp
  then have "unat (of_nat (length response) :: 32 word) = length response"
    by (rule unat_size)
  then have u: "unat (of_nat (length response) :: 32 word) \<le> kMaxTransportMessageSize cfg"
    using a by simp
  show 2: "DispatchMessage cfg c =
      c\<lparr>buffer := big_endian_uint32 (length response) @ response,
        timeout_for_response := response_timeout,
        effects := effects c @ [OnMessageReceived (buffer c), StrandDispatch H_StartWrite]\<rparr>"
    using assms a by (simp add: DispatchMessage_def EncodeData_accepts [OF u] emit_def)
  assume "socket_is_open c"
  then show "run_handler cfg now now' ec len H_StartWrite (DispatchMessage cfg c) =
      Inr (c\<lparr>buffer := big_endian_uint32 (length response) @ response,
             timeout_for_response := response_timeout,
             effects := effects c @
               [OnMessageReceived (buffer c), StrandDispatch H_StartWrite,
                AsyncWrite (big_endian_uint32 (length response) @ response) H_HandleWrite],
             timer_expires_at := PTime (now + milliseconds
               (max (scaled_by_kTimeoutFactor cfg (4 + length response))
                    (total_milliseconds (kMinTimeout cfg))))\<rparr>)"
    by (simp add: 2 StartWrite_eq length_big_endian_uint32)
qed

text \<open>
  A transport that leaves both out-parameters alone, and the transport of the example
  connection, which answers with the message.
\<close>

theorem DispatchMessage_response_witness:
  "DispatchMessage example_config
     (example_connection\<lparr>transport := Some \<lparr>on_message_received = (\<lambda>message out. out)\<rparr>\<rparr>)
     = example_connection
         \<lparr>transport := Some \<lparr>on_message_received = (\<lambda>message out. out)\<rparr>,
          effects := [OnMessageReceived [1, 2, 3], StrandDispatch H_DoClose]\<rparr>
 \<and> DispatchMessage example_config example_connection
     = example_connection
         \<lparr>buffer := [0, 0, 0, 3, 1, 2, 3], timeout_for_response := 0,
          effects := [OnMessageReceived [1, 2, 3], StrandDispatch H_StartWrite]\<rparr>
 \<and> run_handler example_config 0 0 0 0 H_StartWrite
       (DispatchMessage example_config example_connection)
     = Inr (example_connection
         \<lparr>buffer := [0, 0, 0, 3, 1, 2, 3], timeout_for_response := 0,
          effects := [OnMessageReceived [1, 2, 3], StrandDispatch H_StartWrite,
                      AsyncWrite [0, 0, 0, 3, 1, 2, 3] H_HandleWrite],
          timer_expires_at := PTime 500000\<rparr>)"
proof -
  let ?quiet = "\<lparr>on_message_received = (\<lambda>message out. out)\<rparr>"
  let ?echo = "\<lparr>on_message_received = (\<lambda>message (response, timeout). (message, timeout))\<rparr>"
  have 1: "DispatchMessage example_config (example_connection\<lparr>transport := Some ?quiet\<rparr>)
     = example_connection
         \<lparr>transport := Some ?quiet,
          effects := [OnMessageReceived [1, 2, 3], StrandDispatch H_DoClose]\<rparr>"
    using DispatchMessage_response
            [of "example_connection\<lparr>transport := Some ?quiet\<rparr>" ?quiet example_config
                "[]" 0 0 0 0 0]
    by (simp add: example_connection_def example_config_def)
  have h1: "transport example_connection = Some ?echo"
    by (simp add: example_connection_def)
  have h2: "on_message_received ?echo (buffer example_connection)
              ([], kImmediateTimeout example_config) = ([1, 2, 3], 0)"
    by (simp add: example_connection_def example_config_def)
  have pre: "[1, 2, 3 :: byte] \<noteq> []
      \<and> length [1, 2, 3 :: byte] \<le> kMaxTransportMessageSize example_config
      \<and> kMaxTransportMessageSize example_config < 2 ^ 31"
    by (simp add: example_config_def)
  have o: "socket_is_open example_connection"
    by (simp add: example_connection_def)
  have v: "big_endian_uint32 (length [1, 2, 3 :: byte]) @ [1, 2, 3] = [0, 0, 0, 3, 1, 2, 3]"
    "effects example_connection = []" "buffer example_connection = [1, 2, 3]"
    "PTime (0 + milliseconds (max (scaled_by_kTimeoutFactor example_config
        (4 + length [1, 2, 3 :: byte])) (total_milliseconds (kMinTimeout example_config))))
       = PTime 500000"
    by (simp_all add: big_endian_uint32_def example_connection_def example_config_def
          milliseconds_def total_milliseconds_def)
  note t = DispatchMessage_response [OF h1 h2, of 0 0 0 0]
  from t pre have 2: "DispatchMessage example_config example_connection
     = example_connection
         \<lparr>buffer := [0, 0, 0, 3, 1, 2, 3], timeout_for_response := 0,
          effects := [OnMessageReceived [1, 2, 3], StrandDispatch H_StartWrite]\<rparr>"
    unfolding v by simp
  from t pre o have 3: "run_handler example_config 0 0 0 0 H_StartWrite
       (DispatchMessage example_config example_connection)
     = Inr (example_connection
         \<lparr>buffer := [0, 0, 0, 3, 1, 2, 3], timeout_for_response := 0,
          effects := [OnMessageReceived [1, 2, 3], StrandDispatch H_StartWrite,
                      AsyncWrite [0, 0, 0, 3, 1, 2, 3] H_HandleWrite],
          timer_expires_at := PTime 500000\<rparr>)"
    unfolding v append_Nil by blast
  show ?thesis
    using 1 2 3 by blast
qed

text \<open>
  Claim C5 as stated covers every non-empty response. For a response of one byte more than
  the limit the buffer is not the framed response: it still holds the received message,
  the error is reported, and \<^verbatim>\<open>StartWrite\<close> is dispatched all the same.
\<close>

theorem DispatchMessage_oversized_response_counterexample:
  "buffer (DispatchMessage example_config
     (example_connection\<lparr>transport :=
        Some \<lparr>on_message_received =
                (\<lambda>message (response, timeout). (replicate 67108865 7, timeout))\<rparr>\<rparr>))
     = [1, 2, 3]
 \<and> buffer (DispatchMessage example_config
     (example_connection\<lparr>transport :=
        Some \<lparr>on_message_received =
                (\<lambda>message (response, timeout). (replicate 67108865 7, timeout))\<rparr>\<rparr>))
     \<noteq> big_endian_uint32 67108865 @ replicate 67108865 7
 \<and> effects (DispatchMessage example_config
     (example_connection\<lparr>transport :=
        Some \<lparr>on_message_received =
                (\<lambda>message (response, timeout). (replicate 67108865 7, timeout))\<rparr>\<rparr>))
     = [OnMessageReceived [1, 2, 3], LogDataSizeExceedsLimit 67108865,
        OnError kMessageSizeTooLarge, StrandDispatch H_StartWrite]"
proof -
  have big: "kMaxTransportMessageSize example_config
               < unat (of_nat (length (replicate 67108865 (7 :: byte))) :: 32 word)"
    by (simp add: example_config_def)
  have ne: "replicate 67108865 (7 :: byte) \<noteq> []"
    by simp
  show ?thesis
    using ne
    by (simp add: DispatchMessage_def EncodeData_rejects [OF big] emit_def
          example_connection_def big_endian_uint32_def)
qed

text \<open>
  Claim C6: each of the four completion handlers, when it finds the socket closed, calls
  \<^verbatim>\<open>CloseOnError\<close> with the timeout of its phase (\<^verbatim>\<open>kReceiveTimeout\<close> for the two reads,
  \<^verbatim>\<open>kSendTimeout\<close> for the connect and the write), and when the socket is open and the
  completion carries an error code, with \<^verbatim>\<open>kReceiveFailure\<close> or \<^verbatim>\<open>kSendFailure\<close>.
  \<^verbatim>\<open>CloseOnError\<close> reports the condition to the transport, when the transport is alive, and
  then closes: the socket is closed, the timer cancelled and the connection removed.
\<close>

theorem completion_handlers_report_and_close:
  "(\<not> socket_is_open c \<longrightarrow>
      HandleReadSize cfg now c ec = Inr (CloseOnError kReceiveTimeout c)
    \<and> HandleReadData cfg now c ec len = Inr (CloseOnError kReceiveTimeout c)
    \<and> HandleConnect cfg now c ec = Inr (CloseOnError kSendTimeout c)
    \<and> HandleWrite cfg now c ec = Inr (CloseOnError kSendTimeout c))
 \<and> (socket_is_open c \<and> ec \<noteq> 0 \<longrightarrow>
      HandleReadSize cfg now c ec = Inr (CloseOnError kReceiveFailure c)
    \<and> HandleReadData cfg now c ec len = Inr (CloseOnError kReceiveFailure c)
    \<and> HandleConnect cfg now c ec = Inr (CloseOnError kSendFailure c)
    \<and> HandleWrite cfg now c ec = Inr (CloseOnError kSendFailure c))
 \<and> CloseOnError error c =
      c\<lparr>socket_is_open := False,
        effects := effects c @ (if transport c = None then [] else [OnError error])
                   @ [SocketClose, TimerCancel]
                   @ (if transport c = None then [] else [RemoveConnection])\<rparr>"
  by (simp add: HandleReadSize_def HandleReadData_def HandleConnect_def HandleWrite_def
        CloseOnError_eq)

theorem completion_handlers_report_and_close_witness:
  "\<not> socket_is_open (example_connection\<lparr>socket_is_open := False\<rparr>)
 \<and> HandleReadSize example_config 0 (example_connection\<lparr>socket_is_open := False\<rparr>) 0
      = Inr (example_connection\<lparr>socket_is_open := False,
               effects := [OnError kReceiveTimeout, SocketClose, TimerCancel, RemoveConnection]\<rparr>)
 \<and> HandleWrite example_config 0 (example_connection\<lparr>socket_is_open := False\<rparr>) 0
      = Inr (example_connection\<lparr>socket_is_open := False,
               effects := [OnError kSendTimeout, SocketClose, TimerCancel, RemoveConnection]\<rparr>)
 \<and> socket_is_open example_connection \<and> (5 :: nat) \<noteq> 0
 \<and> HandleReadData example_config 0 example_connection 5 0
      = Inr (example_connection\<lparr>socket_is_open := False,
               effects := [OnError kReceiveFailure, SocketClose, TimerCancel, RemoveConnection]\<rparr>)
 \<and> HandleConnect example_config 0 example_connection 5
      = Inr (example_connection\<lparr>socket_is_open := False,
               effects := [OnError kSendFailure, SocketClose, TimerCancel, RemoveConnection]\<rparr>)"
  using completion_handlers_report_and_close
          [of "example_connection\<lparr>socket_is_open := False\<rparr>" example_config 0 0 0 kReceiveTimeout]
        completion_handlers_report_and_close
          [of "example_connection\<lparr>socket_is_open := False\<rparr>" example_config 0 0 0 kSendTimeout]
        completion_handlers_report_and_close
          [of example_connection example_config 0 5 0 kReceiveFailure]
        completion_handlers_report_and_close
          [of example_connection example_config 0 5 0 kSendFailure]
  by (simp add: example_connection_def)

text \<open>
  Claim C7: after a write that completed on an open socket without an error code, a
  response timeout equal to \<^verbatim>\<open>kImmediateTimeout\<close> closes the connection and starts no read;
  any other response timeout starts the read of the four bytes of the size.
\<close>

theorem HandleWrite_success_next_step:
  assumes "socket_is_open c"
  shows "(timeout_for_response c = kImmediateTimeout cfg \<longrightarrow>
            HandleWrite cfg now c 0 =
              Inr (c\<lparr>socket_is_open := False,
                     effects := effects c @ [SocketClose, TimerCancel]
                                @ (if transport c = None then [] else [RemoveConnection])\<rparr>))
       \<and> (timeout_for_response c \<noteq> kImmediateTimeout cfg \<longrightarrow>
            HandleWrite cfg now c 0 =
              Inr (c\<lparr>buffer := resize 4 (buffer c),
                     effects := effects c @ [AsyncRead 0 4 4 H_HandleReadSize],
                     response_deadline := PTime (now + timeout_for_response c),
                     timer_expires_at := ptime_min (PTime (now + timeout_for_response c))
                                                   (PTime (now + kStallTimeout cfg))\<rparr>)
          \<and> length (resize 4 (buffer c)) = 4)"
  using assms by (simp add: HandleWrite_def DoClose_eq StartReadSize_eq) (simp add: resize_def min_def)

theorem HandleWrite_success_next_step_witness:
  "socket_is_open example_connection
 \<and> HandleWrite example_config 7 (example_connection\<lparr>timeout_for_response := 0\<rparr>) 0
      = Inr (example_connection\<lparr>timeout_for_response := 0, socket_is_open := False,
               effects := [SocketClose, TimerCancel, RemoveConnection]\<rparr>)
 \<and> HandleWrite example_config 7 example_connection 0
      = Inr (example_connection\<lparr>buffer := [1, 2, 3, 0],
               effects := [AsyncRead 0 4 4 H_HandleReadSize],
               response_deadline := PTime 10000007,
               timer_expires_at := PTime 3000007\<rparr>)"
  using HandleWrite_success_next_step
          [of "example_connection\<lparr>timeout_for_response := 0\<rparr>" example_config 7]
        HandleWrite_success_next_step [of example_connection example_config 7]
  by (simp add: example_connection_def example_config_def resize_def ptime_min_def)

text \<open>
  Claim C8, as the code has it, on an open socket. Starting the read of the size or of the
  data sets the timer to the earlier of the response deadline and the stall deadline (now
  plus \<^verbatim>\<open>kStallTimeout\<close>). Starting the connect sets it to now plus
  \<^verbatim>\<open>kDefaultInitialTimeout\<close>, and starting the write to now plus the write timeout: the
  scaled size of the buffer, at least \<^verbatim>\<open>kMinTimeout\<close>, in milliseconds. When the last byte
  of a message has arrived the timer is set to infinity and the dispatch is posted; a
  timeout check then finds nothing to close and waits again.
\<close>

theorem timer_deadline_by_phase:
  assumes "socket_is_open c"
  shows "(\<exists>c'. StartReadSize cfg now c = Inr c'
            \<and> response_deadline c' = PTime (now + timeout_for_response c)
            \<and> timer_expires_at c'
                = ptime_min (response_deadline c') (PTime (now + kStallTimeout cfg)))
       \<and> (\<exists>c'. StartReadData cfg now c = Inr c'
            \<and> response_deadline c' = response_deadline c
            \<and> timer_expires_at c'
                = ptime_min (response_deadline c') (PTime (now + kStallTimeout cfg)))
       \<and> ptime_less_eq (ptime_min a b) a \<and> ptime_less_eq (ptime_min a b) b
       \<and> (ptime_min a b = a \<or> ptime_min a b = b)
       \<and> timer_expires_at (StartConnect cfg now c) = PTime (now + kDefaultInitialTimeout cfg)
       \<and> (\<exists>c'. StartWrite cfg now c = Inr c'
            \<and> timer_expires_at c'
                = PTime (now + milliseconds
                    (max (scaled_by_kTimeoutFactor cfg (length (buffer c)))
                         (total_milliseconds (kMinTimeout cfg)))))
       \<and> (size_t_add (data_received c) len = data_size c \<longrightarrow>
            (\<exists>c'. HandleReadData cfg now c 0 len = Inr c'
               \<and> timer_expires_at c' = PosInfin
               \<and> effects c' = effects c @ [IoServicePost H_DispatchMessage]
               \<and> CheckTimeout now' c' = emit (TimerAsyncWait H_CheckTimeout) c'))"
proof -
  have m: "ptime_less_eq (ptime_min a b) a \<and> ptime_less_eq (ptime_min a b) b
       \<and> (ptime_min a b = a \<or> ptime_min a b = b)"
    by (cases a; cases b) (auto simp: ptime_min_def)
  show ?thesis
    using assms m
    by (simp add: StartReadSize_eq StartReadData_eq StartWrite_eq StartConnect_def emit_def
          HandleReadData_def CheckTimeout_def)
qed

theorem timer_deadline_by_phase_witness:
  "socket_is_open example_connection
 \<and> StartReadSize example_config 1000 example_connection
     = Inr (example_connection
         \<lparr>buffer := [1, 2, 3, 0], effects := [AsyncRead 0 4 4 H_HandleReadSize],
          response_deadline := PTime 10001000, timer_expires_at := PTime 3001000\<rparr>)
 \<and> timer_expires_at (StartConnect example_config 1000 example_connection) = PTime 10001000
 \<and> size_t_add (data_received example_connection) 3 = data_size example_connection
 \<and> HandleReadData example_config 1000 example_connection 0 3
     = Inr (example_connection
         \<lparr>data_received := 3, timer_expires_at := PosInfin,
          effects := [IoServicePost H_DispatchMessage]\<rparr>)"
proof -
  have o: "socket_is_open example_connection"
    by (simp add: example_connection_def)
  have s: "size_t_add (data_received example_connection) 3 = data_size example_connection"
    by (simp add: example_connection_def size_t_add_def)
  note t = timer_deadline_by_phase [OF o, of example_config 1000 PosInfin PosInfin 3 2000]
  have 1: "StartReadSize example_config 1000 example_connection
     = Inr (example_connection
         \<lparr>buffer := [1, 2, 3, 0], effects := [AsyncRead 0 4 4 H_HandleReadSize],
          response_deadline := PTime 10001000, timer_expires_at := PTime 3001000\<rparr>)"
    by (simp add: StartReadSize_eq [OF o])
       (simp add: example_connection_def example_config_def resize_def ptime_min_def)
  have 2: "timer_expires_at (StartConnect example_config 1000 example_connection) = PTime 10001000"
    using t by (simp add: example_config_def)
  have 3: "HandleReadData example_config 1000 example_connection 0 3
     = Inr (example_connection
         \<lparr>data_received := 3, timer_expires_at := PosInfin,
          effects := [IoServicePost H_DispatchMessage]\<rparr>)"
    using o s by (simp add: HandleReadData_def emit_def) (simp add: example_connection_def)
  show ?thesis
    using o s 1 2 3 by blast
qed

text \<open>
  Claim C8 as stated has the timer at the earlier of the two tracked deadlines in every
  I/O step. At time 1000, with a response deadline of 10 s, the write of three bytes sets
  it to 0.5 s after now, while the earlier of the two deadlines is 3 s after now; the
  connect sets it to 10 s after now.
\<close>

theorem StartWrite_deadline_counterexample:
  "StartWrite example_config 1000 (example_connection\<lparr>response_deadline := PTime 10000000\<rparr>)
     = Inr (example_connection
         \<lparr>response_deadline := PTime 10000000,
          effects := [AsyncWrite [1, 2, 3] H_HandleWrite],
          timer_expires_at := PTime 501000\<rparr>)
 \<and> ptime_min (PTime 10000000) (PTime (1000 + kStallTimeout example_config)) = PTime 3001000
 \<and> timer_expires_at (StartConnect example_config 1000
       (example_connection\<lparr>response_deadline := PTime 10000000\<rparr>)) = PTime 10001000"
  by (simp add: StartWrite_def StartConnect_def emit_def example_connection_def
        example_config_def milliseconds_def total_milliseconds_def ptime_min_def)

text \<open>
  Claim C10: with the transport destroyed, \<^verbatim>\<open>DispatchMessage\<close> gives the connection back
  as it is: no callback, no framing, no write, no error report, no close. Together with
  the step before it: when the last byte arrives, \<^verbatim>\<open>HandleReadData\<close> sets the timer to
  infinity and posts the dispatch, and running the dispatch changes nothing.
\<close>

theorem DispatchMessage_without_transport:
  assumes "transport c = None"
  shows "DispatchMessage cfg c = c
       \<and> (socket_is_open c \<and> size_t_add (data_received c) len = data_size c \<longrightarrow>
            HandleReadData cfg now c 0 len =
              Inr (c\<lparr>data_received := data_size c, timer_expires_at := PosInfin,
                     effects := effects c @ [IoServicePost H_DispatchMessage]\<rparr>)
          \<and> run_handler cfg now' now'' ec len' H_DispatchMessage
              (c\<lparr>data_received := data_size c, timer_expires_at := PosInfin,
                 effects := effects c @ [IoServicePost H_DispatchMessage]\<rparr>)
            = Inr (c\<lparr>data_received := data_size c, timer_expires_at := PosInfin,
                     effects := effects c @ [IoServicePost H_DispatchMessage]\<rparr>))"
  using assms by (simp add: DispatchMessage_def HandleReadData_def emit_def Let_def)

theorem DispatchMessage_without_transport_witness:
  "transport (example_connection\<lparr>transport := None, data_received := 1\<rparr>) = None
 \<and> DispatchMessage example_config (example_connection\<lparr>transport := None, data_received := 1\<rparr>)
      = example_connection\<lparr>transport := None, data_received := 1\<rparr>
 \<and> HandleReadData example_config 0
      (example_connection\<lparr>transport := None, data_received := 1\<rparr>) 0 2
      = Inr (example_connection\<lparr>transport := None, data_received := 3,
               timer_expires_at := PosInfin, effects := [IoServicePost H_DispatchMessage]\<rparr>)"
  using DispatchMessage_without_transport
          [of "example_connection\<lparr>transport := None, data_received := 1\<rparr>" example_config 2 0]
  by (simp add: example_connection_def size_t_add_def)

end
